theory Spec2Isabelle
  imports Complex_Main "HOL-Library.Sublist" "HOL-Library.Monad_Syntax"
begin

section \<open>The tensor runtime\<close>

text \<open>
  The models of this repository are written against torch. The part of torch they use is
  modelled here over the real numbers: a tensor is its shape together with its entries,
  read by a multi-index. An operation that torch rejects (a shape mismatch, an unbound
  variable, a division by zero) has the value \<open>None\<close>; a Python exception is never
  caught in these sources, so the first one ends the call.
\<close>

record 'a tensor =
  shape :: "nat list"
  data :: "nat list \<Rightarrow> 'a"

text \<open>\<^verbatim>\<open>torch.zeros(*s)\<close>\<close>

definition zeros :: "nat list \<Rightarrow> real tensor" where
  "zeros s = \<lparr>shape = s, data = (\<lambda>_. 0)\<rparr>"

text \<open>\<^verbatim>\<open>torch.ones(*s)\<close>\<close>

definition ones :: "nat list \<Rightarrow> real tensor" where
  "ones s = \<lparr>shape = s, data = (\<lambda>_. 1)\<rparr>"

text \<open>
  Broadcasting: the two shapes are aligned at their last dimension; two sizes are
  compatible when they are equal or one of them is 1.
\<close>

fun broadcast_rev :: "nat list \<Rightarrow> nat list \<Rightarrow> nat list option" where
  "broadcast_rev [] ys = Some ys"
| "broadcast_rev xs [] = Some xs"
| "broadcast_rev (x # xs) (y # ys) =
     (if y = x \<or> y = 1 then map_option (Cons x) (broadcast_rev xs ys)
      else if x = 1 then map_option (Cons y) (broadcast_rev xs ys)
      else None)"

definition broadcast_shapes :: "nat list \<Rightarrow> nat list \<Rightarrow> nat list option" where
  "broadcast_shapes a b = map_option rev (broadcast_rev (rev a) (rev b))"

text \<open>The index at which an operand of shape \<open>s\<close> is read for the result's index.\<close>

definition bindex :: "nat list \<Rightarrow> nat list \<Rightarrow> nat list" where
  "bindex s idx = map2 (\<lambda>d i. if d = 1 then 0 else i) s (drop (length idx - length s) idx)"

definition pointwise ::
  "(real \<Rightarrow> real \<Rightarrow> real) \<Rightarrow> real tensor \<Rightarrow> real tensor \<Rightarrow> real tensor option" where
  "pointwise f a b =
     map_option
       (\<lambda>s. \<lparr>shape = s,
             data = (\<lambda>idx. f (data a (bindex (shape a) idx)) (data b (bindex (shape b) idx)))\<rparr>)
       (broadcast_shapes (shape a) (shape b))"

text \<open>\<^verbatim>\<open>a + b\<close> and \<^verbatim>\<open>a * b\<close> on tensors.\<close>

definition t_add :: "real tensor \<Rightarrow> real tensor \<Rightarrow> real tensor option" where
  "t_add a b = pointwise (+) a b"

definition t_mul :: "real tensor \<Rightarrow> real tensor \<Rightarrow> real tensor option" where
  "t_mul a b = pointwise (*) a b"

text \<open>
  \<^verbatim>\<open>a += b\<close>: the sum is written into \<open>a\<close>, whose shape cannot grow, so the
  broadcast shape has to be the shape of \<open>a\<close>.
\<close>

definition t_iadd :: "real tensor \<Rightarrow> real tensor \<Rightarrow> real tensor option" where
  "t_iadd a b =
     (if broadcast_shapes (shape a) (shape b) = Some (shape a) then t_add a b else None)"

text \<open>\<^verbatim>\<open>nn.LeakyReLU()\<close>, negative slope 0.01.\<close>

definition leaky_relu :: "real tensor \<Rightarrow> real tensor" where
  "leaky_relu x =
     \<lparr>shape = shape x, data = (\<lambda>idx. if 0 \<le> data x idx then data x idx else data x idx / 100)\<rparr>"

text \<open>
  \<^verbatim>\<open>F.conv2d(x, w, None, stride, padding)\<close> on a batched input \<open>[B, C, H, W]\<close> with a
  weight \<open>[Co, C, kh, kw]\<close>, zero padding on both sides of each spatial dimension.
\<close>

definition padded :: "real tensor \<Rightarrow> nat \<Rightarrow> nat \<Rightarrow> nat \<Rightarrow> nat \<Rightarrow> nat \<Rightarrow> real" where
  "padded x p b c u v =
     (case shape x of
        [B, C, H, W] \<Rightarrow>
          if p \<le> u \<and> u < H + p \<and> p \<le> v \<and> v < W + p then data x [b, c, u - p, v - p] else 0
      | _ \<Rightarrow> 0)"

definition conv2d_op :: "real tensor \<Rightarrow> nat \<Rightarrow> nat \<Rightarrow> real tensor \<Rightarrow> real tensor option" where
  "conv2d_op w s p x =
     (case (shape x, shape w) of
        ([B, C, H, W], [Co, C', kh, kw]) \<Rightarrow>
          if C \<noteq> C' \<or> s = 0 \<or> H + 2 * p < kh \<or> W + 2 * p < kw then None
          else Some
            \<lparr>shape = [B, Co, (H + 2 * p - kh) div s + 1, (W + 2 * p - kw) div s + 1],
             data = (\<lambda>idx. case idx of
                [b, oc, i, j] \<Rightarrow>
                  (\<Sum>c \<leftarrow> [0..<C]. \<Sum>di \<leftarrow> [0..<kh]. \<Sum>dj \<leftarrow> [0..<kw].
                     data w [oc, c, di, dj] * padded x p b c (i * s + di) (j * s + dj))
              | _ \<Rightarrow> 0)\<rparr>
      | _ \<Rightarrow> None)"

text \<open>\<^verbatim>\<open>nn.AdaptiveAvgPool2d((1, 1))\<close>: the mean over the two spatial dimensions.\<close>

definition avgpool_1x1 :: "real tensor \<Rightarrow> real tensor option" where
  "avgpool_1x1 x =
     (case shape x of
        [B, C, H, W] \<Rightarrow>
          if C = 0 \<or> H = 0 \<or> W = 0 then None
          else Some
            \<lparr>shape = [B, C, 1, 1],
             data = (\<lambda>idx. case idx of
                b # c # _ \<Rightarrow>
                  (\<Sum>i \<leftarrow> [0..<H]. \<Sum>j \<leftarrow> [0..<W]. data x [b, c, i, j]) / real (H * W)
              | _ \<Rightarrow> 0)\<rparr>
      | _ \<Rightarrow> None)"

text \<open>
  \<^verbatim>\<open>x.view(x.size(0), -1)\<close>: the dimensions after the first are flattened, row-major.
  With no element the inferred dimension is ambiguous and torch raises.
\<close>

fun unravel :: "nat list \<Rightarrow> nat \<Rightarrow> nat list" where
  "unravel [] k = []"
| "unravel (d # ds) k = (k div prod_list ds) # unravel ds (k mod prod_list ds)"

definition view_rows :: "real tensor \<Rightarrow> real tensor option" where
  "view_rows x =
     (case shape x of
        [] \<Rightarrow> None
      | B # ds \<Rightarrow>
          if B * prod_list ds = 0 then None
          else Some
            \<lparr>shape = [B, prod_list ds],
             data = (\<lambda>idx. case idx of
                [b, k] \<Rightarrow> data x (b # unravel ds k)
              | _ \<Rightarrow> 0)\<rparr>)"

text \<open>
  \<^verbatim>\<open>F.linear(x, w, b)\<close>: \<open>x\<close> is \<open>[..., n]\<close>, the weight \<open>[m, n]\<close>, the bias \<open>[m]\<close> when
  there is one; the result is \<open>[..., m]\<close>.
\<close>

definition linear_op :: "real tensor \<Rightarrow> real tensor option \<Rightarrow> real tensor \<Rightarrow> real tensor option" where
  "linear_op w b x =
     (case shape w of
        [m, n] \<Rightarrow>
          if shape x = [] \<or> last (shape x) \<noteq> n then None
          else Some
            \<lparr>shape = butlast (shape x) @ [m],
             data = (\<lambda>idx.
                (\<Sum>j \<leftarrow> [0..<n]. data x (butlast idx @ [j]) * data w [last idx, j])
                + (case b of None \<Rightarrow> 0 | Some bt \<Rightarrow> data bt [last idx]))\<rparr>
      | _ \<Rightarrow> None)"

section \<open>Parameters and their initialisers\<close>

text \<open>
  A parameter is a tensor with its \<^verbatim>\<open>requires_grad\<close> flag. \<open>p_init\<close> records the
  initialiser that filled it last, with the arguments of the call: the entries of a
  sampled tensor say nothing about the distribution they were drawn from.
\<close>

datatype initialiser = Default_init | Normal_init real real | Constant_init real

record param =
  p_data :: "real tensor"
  p_init :: initialiser
  requires_grad :: bool

text \<open>
  The random generator is global state in torch. Here it is the stream of the tensors it
  will hand out, each as its entries; a draw takes the head of the stream.
\<close>

type_synonym rng = "nat \<Rightarrow> nat list \<Rightarrow> real"

definition draw :: "rng \<Rightarrow> (nat list \<Rightarrow> real) \<times> rng" where
  "draw g = (g 0, (\<lambda>n. g (Suc n)))"

definition Parameter :: "nat list \<Rightarrow> rng \<Rightarrow> param \<times> rng" where
  "Parameter s g =
     (let (z, g) = draw g
      in (\<lparr>p_data = \<lparr>shape = s, data = z\<rparr>, p_init = Default_init, requires_grad = True\<rparr>, g))"

text \<open>\<^verbatim>\<open>nn.init.normal_(p, mean, std)\<close> and \<^verbatim>\<open>nn.init.constant_(p, c)\<close>\<close>

definition init_normal :: "param \<Rightarrow> real \<Rightarrow> real \<Rightarrow> rng \<Rightarrow> param \<times> rng" where
  "init_normal p mean std g =
     (let (z, g) = draw g
      in (p\<lparr>p_data := \<lparr>shape = shape (p_data p), data = (\<lambda>idx. mean + std * z idx)\<rparr>,
            p_init := Normal_init mean std\<rparr>, g))"

definition init_constant :: "param \<Rightarrow> real \<Rightarrow> param" where
  "init_constant p c =
     p\<lparr>p_data := \<lparr>shape = shape (p_data p), data = (\<lambda>_. c)\<rparr>, p_init := Constant_init c\<rparr>"

section \<open>Modules of torch.nn\<close>

record conv2d =
  in_channels :: nat
  out_channels :: nat
  kernel_size :: nat
  c_stride :: nat
  c_padding :: nat
  c_weight :: param

record linear_layer =
  in_features :: nat
  out_features :: nat
  l_weight :: param
  l_bias :: "param option"

text \<open>\<^verbatim>\<open>nn.Conv2d(cin, cout, kernel_size=k, stride=s, padding=p, bias=False)\<close>\<close>

definition Conv2d :: "nat \<Rightarrow> nat \<Rightarrow> nat \<Rightarrow> nat \<Rightarrow> nat \<Rightarrow> rng \<Rightarrow> conv2d \<times> rng" where
  "Conv2d cin cout k s p g =
     (let (w, g) = Parameter [cout, cin, k, k] g
      in (\<lparr>in_channels = cin, out_channels = cout, kernel_size = k, c_stride = s,
            c_padding = p, c_weight = w\<rparr>, g))"

text \<open>\<^verbatim>\<open>nn.Linear(n, m, bias=has_bias)\<close>\<close>

definition Linear :: "nat \<Rightarrow> nat \<Rightarrow> bool \<Rightarrow> rng \<Rightarrow> linear_layer \<times> rng" where
  "Linear n m has_bias g =
     (let (w, g) = Parameter [m, n] g;
          (b, g) = (if has_bias then (let (b, g) = Parameter [m] g in (Some b, g)) else (None, g))
      in (\<lparr>in_features = n, out_features = m, l_weight = w, l_bias = b\<rparr>, g))"

definition Conv2d_forward :: "conv2d \<Rightarrow> real tensor \<Rightarrow> real tensor option" where
  "Conv2d_forward c x = conv2d_op (p_data (c_weight c)) (c_stride c) (c_padding c) x"

definition Linear_forward :: "linear_layer \<Rightarrow> real tensor \<Rightarrow> real tensor option" where
  "Linear_forward l x = linear_op (p_data (l_weight l)) (map_option p_data (l_bias l)) x"

section \<open>Python helpers\<close>

text \<open>\<^verbatim>\<open>xs[i]\<close> for a literal index \<open>i \<ge> 0\<close>: IndexError past the end.\<close>

definition index :: "'a list \<Rightarrow> nat \<Rightarrow> 'a option" where
  "index xs i = (if i < length xs then Some (xs ! i) else None)"

text \<open>\<^verbatim>\<open>str(n)\<close> for \<open>n \<ge> 0\<close>, and \<^verbatim>\<open>sub in s\<close> on strings.\<close>

definition digit_char :: "nat \<Rightarrow> char" where
  "digit_char d = ''0123456789'' ! d"

fun str_nat :: "nat \<Rightarrow> string" where
  "str_nat n = (if n < 10 then [digit_char n] else str_nat (n div 10) @ [digit_char (n mod 10)])"

fun contains :: "string \<Rightarrow> string \<Rightarrow> bool" where
  "contains sub [] = (sub = [])"
| "contains sub (c # s) = (prefix sub (c # s) \<or> contains sub s)"

section \<open>Fixup residual network: \<^verbatim>\<open>lib/models/fixup_resnet.py\<close>\<close>

definition conv3x3 :: "nat \<Rightarrow> nat \<Rightarrow> nat \<Rightarrow> rng \<Rightarrow> conv2d \<times> rng" where
  "conv3x3 in_planes out_planes stride g = Conv2d in_planes out_planes 3 stride 1 g"

definition conv1x1 :: "nat \<Rightarrow> nat \<Rightarrow> nat \<Rightarrow> rng \<Rightarrow> conv2d \<times> rng" where
  "conv1x1 in_planes out_planes stride g = Conv2d in_planes out_planes 1 stride 0 g"

text \<open>
  \<^verbatim>\<open>class FixupBasicBlock\<close>. Its \<^verbatim>\<open>relu\<close> is \<^verbatim>\<open>nn.LeakyReLU(inplace=True)\<close>, which
  has no parameter and no state, so the record has no field for it.
\<close>

record fixup_block =
  bias1a :: linear_layer
  conv1 :: conv2d
  bias1b :: linear_layer
  bias2a :: linear_layer
  conv2 :: conv2d
  scale :: linear_layer
  bias2b :: linear_layer
  downsample :: "conv2d option"
  b_stride :: nat

definition expansion :: nat where
  "expansion = 1"

text \<open>\<^verbatim>\<open>FixupBasicBlock.__init__(self, inplanes, planes, stride=1, downsample=None)\<close>\<close>

definition FixupBasicBlock ::
  "nat \<Rightarrow> nat \<Rightarrow> nat \<Rightarrow> conv2d option \<Rightarrow> rng \<Rightarrow> fixup_block \<times> rng" where
  "FixupBasicBlock inplanes planes stride dsample g =
     (let (b1a, g) = Linear 1 1 False g;
          (c1, g) = conv3x3 inplanes planes stride g;
          (b1b, g) = Linear 1 1 False g;
          (b2a, g) = Linear 1 1 False g;
          (c2, g) = conv3x3 planes planes 1 g;
          (sc, g) = Linear 1 1 False g;
          (b2b, g) = Linear 1 1 False g
      in (\<lparr>bias1a = b1a, conv1 = c1, bias1b = b1b, bias2a = b2a, conv2 = c2, scale = sc,
            bias2b = b2b, downsample = dsample, b_stride = stride\<rparr>, g))"

text \<open>
  \<^verbatim>\<open>FixupBasicBlock.forward\<close>. The in-place operations (\<^verbatim>\<open>out += identity\<close> and the
  in-place activation) write into tensors this call has allocated, never into \<open>x\<close> or a
  parameter, so the call is a function of the block and \<open>x\<close>.
\<close>

definition FixupBasicBlock_forward :: "fixup_block \<Rightarrow> real tensor \<Rightarrow> real tensor option" where
  "FixupBasicBlock_forward m x = do {
     let identity = x;
     a \<leftarrow> t_add x (p_data (l_weight (bias1a m)));
     out \<leftarrow> Conv2d_forward (conv1 m) a;
     a \<leftarrow> t_add out (p_data (l_weight (bias1b m)));
     let out = leaky_relu a;
     a \<leftarrow> t_add out (p_data (l_weight (bias2a m)));
     out \<leftarrow> Conv2d_forward (conv2 m) a;
     a \<leftarrow> t_mul out (p_data (l_weight (scale m)));
     out \<leftarrow> t_add a (p_data (l_weight (bias2b m)));
     identity \<leftarrow>
       (case downsample m of
          None \<Rightarrow> Some identity
        | Some d \<Rightarrow> do {
            a \<leftarrow> t_add x (p_data (l_weight (bias1a m)));
            Conv2d_forward d a
          });
     out \<leftarrow> t_iadd out identity;
     let out = leaky_relu out;
     Some out
   }"

text \<open>\<^verbatim>\<open>nn.Sequential(*layers)\<close> of blocks: each block is applied to the output of the one before.\<close>

fun Sequential_forward :: "fixup_block list \<Rightarrow> real tensor \<Rightarrow> real tensor option" where
  "Sequential_forward [] x = Some x"
| "Sequential_forward (m # ms) x = do {
     y \<leftarrow> FixupBasicBlock_forward m x;
     Sequential_forward ms y
   }"

text \<open>
  \<^verbatim>\<open>FixupResNet._make_layer(self, block, planes, blocks, stride=1)\<close> with
  \<^verbatim>\<open>block = FixupBasicBlock\<close>. \<open>more_blocks\<close> is its loop
  \<^verbatim>\<open>for _ in range(1, blocks)\<close>, which runs \<open>blocks - 1\<close> times and not at all when
  \<open>blocks \<le> 1\<close>. The method reads and writes \<^verbatim>\<open>self.inplanes\<close>: the model takes it
  and returns the new one.
\<close>

fun more_blocks :: "nat \<Rightarrow> nat \<Rightarrow> nat \<Rightarrow> rng \<Rightarrow> fixup_block list \<times> rng" where
  "more_blocks 0 inplanes planes g = ([], g)"
| "more_blocks (Suc n) inplanes planes g =
     (let (b, g) = FixupBasicBlock inplanes planes 1 None g;
          (bs, g) = more_blocks n inplanes planes g
      in (b # bs, g))"

definition make_layer ::
  "nat \<Rightarrow> nat \<Rightarrow> int \<Rightarrow> nat \<Rightarrow> rng \<Rightarrow> (fixup_block list \<times> nat) \<times> rng" where
  "make_layer inplanes planes blocks stride g =
     (let (dsample, g) =
            (if stride \<noteq> 1 \<or> inplanes \<noteq> planes * expansion
             then (let (d, g) = conv1x1 inplanes (planes * expansion) stride g in (Some d, g))
             else (None, g));
          (b, g) = FixupBasicBlock inplanes planes stride dsample g;
          inplanes = planes * expansion;
          (bs, g) = more_blocks (nat (blocks - 1)) inplanes planes g
      in ((b # bs, inplanes), g))"

record fixup_resnet =
  num_layers :: int
  net_conv1 :: conv2d
  bias1 :: linear_layer
  layer1 :: "fixup_block list"
  layer2 :: "fixup_block list"
  layer3 :: "fixup_block list"
  layer4 :: "fixup_block list"
  bias2 :: linear_layer
  fc :: linear_layer

text \<open>
  The initialisation loop of \<^verbatim>\<open>FixupResNet.__init__\<close>,
  \<^verbatim>\<open>for name, m in self.named_modules()\<close>. Its body has two branches, by the type of
  \<open>m\<close>; modules of any other type (the network itself, \<^verbatim>\<open>nn.Sequential\<close>,
  \<^verbatim>\<open>nn.Conv2d\<close>, \<^verbatim>\<open>nn.LeakyReLU\<close>, the pooling) are passed over.

  First branch, \<^verbatim>\<open>isinstance(m, FixupBasicBlock)\<close>. \<^verbatim>\<open>self.num_layers ** (-0.5)\<close>
  raises ZeroDivisionError when the sum is 0; for a negative sum Python returns a complex
  number, which \<^verbatim>\<open>normal_\<close> refuses as \<open>std\<close>.
\<close>

definition fan_term :: "param \<Rightarrow> nat" where
  "fan_term w = (shape (p_data w) ! 0) * prod_list (drop 2 (shape (p_data w)))"

definition init_block :: "int \<Rightarrow> fixup_block \<Rightarrow> rng \<Rightarrow> (fixup_block \<times> rng) option" where
  "init_block L m g =
     (if L \<le> 0 then None
      else
        let bound = sqrt (2 / real (fan_term (c_weight (conv1 m)))) * (real_of_int L) powr (- 0.5);
            (w1, g) = init_normal (c_weight (conv1 m)) 0 bound g;
            w2 = init_constant (c_weight (conv2 m)) 0;
            (ds, g) =
              (case downsample m of
                 None \<Rightarrow> (None, g)
               | Some d \<Rightarrow>
                   let bound = sqrt (2 / real (fan_term (c_weight d)));
                       (w, g) = init_normal (c_weight d) 0 bound g
                   in (Some (d\<lparr>c_weight := w\<rparr>), g))
        in Some (m\<lparr>conv1 := (conv1 m)\<lparr>c_weight := w1\<rparr>,
                    conv2 := (conv2 m)\<lparr>c_weight := w2\<rparr>,
                    downsample := ds\<rparr>, g))"

text \<open>Second branch, \<^verbatim>\<open>isinstance(m, nn.Linear)\<close>.\<close>

definition init_linear :: "string \<Rightarrow> linear_layer \<Rightarrow> linear_layer" where
  "init_linear name m =
     (let m = m\<lparr>l_weight := init_constant (l_weight m) 0\<rparr>;
          m = (case l_bias m of
                 None \<Rightarrow> m
               | Some b \<Rightarrow> m\<lparr>l_bias := Some (init_constant b 0)\<rparr>);
          m = (if contains ''scale'' name then m\<lparr>l_weight := init_constant (l_weight m) 1\<rparr> else m)
      in m)"

text \<open>
  \<^verbatim>\<open>named_modules()\<close> yields every module once, a module before its children, the
  children in the order of their registration and under the name
  \<^verbatim>\<open>prefix + '.' + child\<close>; the children of a \<^verbatim>\<open>nn.Sequential\<close> are named by their
  position. No module of the network is shared. The three functions below run the loop
  over a block and its children, over a stage, and over the whole network.
\<close>

definition init_block_modules ::
  "int \<Rightarrow> string \<Rightarrow> fixup_block \<Rightarrow> rng \<Rightarrow> (fixup_block \<times> rng) option" where
  "init_block_modules L name m g = do {
     (m, g) \<leftarrow> init_block L m g;
     let m = m\<lparr>bias1a := init_linear (name @ ''.bias1a'') (bias1a m)\<rparr>;
     let m = m\<lparr>bias1b := init_linear (name @ ''.bias1b'') (bias1b m)\<rparr>;
     let m = m\<lparr>bias2a := init_linear (name @ ''.bias2a'') (bias2a m)\<rparr>;
     let m = m\<lparr>scale := init_linear (name @ ''.scale'') (scale m)\<rparr>;
     let m = m\<lparr>bias2b := init_linear (name @ ''.bias2b'') (bias2b m)\<rparr>;
     Some (m, g)
   }"

fun init_layer_modules ::
  "int \<Rightarrow> string \<Rightarrow> nat \<Rightarrow> fixup_block list \<Rightarrow> rng \<Rightarrow> (fixup_block list \<times> rng) option" where
  "init_layer_modules L name i [] g = Some ([], g)"
| "init_layer_modules L name i (m # ms) g = do {
     (m, g) \<leftarrow> init_block_modules L (name @ ''.'' @ str_nat i) m g;
     (ms, g) \<leftarrow> init_layer_modules L name (Suc i) ms g;
     Some (m # ms, g)
   }"

definition init_modules :: "fixup_resnet \<Rightarrow> rng \<Rightarrow> (fixup_resnet \<times> rng) option" where
  "init_modules net g = do {
     let net = net\<lparr>bias1 := init_linear ''bias1'' (bias1 net)\<rparr>;
     (l1, g) \<leftarrow> init_layer_modules (num_layers net) ''layer1'' 0 (layer1 net) g;
     (l2, g) \<leftarrow> init_layer_modules (num_layers net) ''layer2'' 0 (layer2 net) g;
     (l3, g) \<leftarrow> init_layer_modules (num_layers net) ''layer3'' 0 (layer3 net) g;
     (l4, g) \<leftarrow> init_layer_modules (num_layers net) ''layer4'' 0 (layer4 net) g;
     let net = net\<lparr>layer1 := l1, layer2 := l2, layer3 := l3, layer4 := l4\<rparr>;
     let net = net\<lparr>bias2 := init_linear ''bias2'' (bias2 net)\<rparr>;
     let net = net\<lparr>fc := init_linear ''fc'' (fc net)\<rparr>;
     Some (net, g)
   }"

text \<open>
  \<^verbatim>\<open>FixupResNet.__init__(self, block, layers, num_classes=10)\<close> with
  \<^verbatim>\<open>block = FixupBasicBlock\<close>. A negative \<open>num_classes\<close> is refused by \<^verbatim>\<open>nn.Linear\<close>.
\<close>

definition FixupResNet :: "int list \<Rightarrow> int \<Rightarrow> rng \<Rightarrow> (fixup_resnet \<times> rng) option" where
  "FixupResNet layers num_classes g = do {
     let L = sum_list layers;
     let inplanes = 64;
     let (c1, g) = Conv2d 3 64 3 1 1 g;
     let (b1, g) = Linear 1 1 False g;
     n \<leftarrow> index layers 0;
     let ((l1, inplanes), g) = make_layer inplanes 64 n 1 g;
     n \<leftarrow> index layers 1;
     let ((l2, inplanes), g) = make_layer inplanes 128 n 2 g;
     n \<leftarrow> index layers 2;
     let ((l3, inplanes), g) = make_layer inplanes 256 n 2 g;
     n \<leftarrow> index layers 3;
     let ((l4, inplanes), g) = make_layer inplanes 512 n 2 g;
     let (b2, g) = Linear 1 1 False g;
     (fc_layer, g) \<leftarrow>
       (if num_classes < 0 then None
        else Some (Linear (512 * expansion) (nat num_classes) True g));
     init_modules
       \<lparr>num_layers = L, net_conv1 = c1, bias1 = b1, layer1 = l1, layer2 = l2, layer3 = l3,
        layer4 = l4, bias2 = b2, fc = fc_layer\<rparr> g
   }"

text \<open>\<^verbatim>\<open>FixupResNet.forward\<close>\<close>

definition FixupResNet_forward :: "fixup_resnet \<Rightarrow> real tensor \<Rightarrow> real tensor option" where
  "FixupResNet_forward net x = do {
     x \<leftarrow> Conv2d_forward (net_conv1 net) x;
     a \<leftarrow> t_add x (p_data (l_weight (bias1 net)));
     let x = leaky_relu a;
     x \<leftarrow> Sequential_forward (layer1 net) x;
     x \<leftarrow> Sequential_forward (layer2 net) x;
     x \<leftarrow> Sequential_forward (layer3 net) x;
     x \<leftarrow> Sequential_forward (layer4 net) x;
     x \<leftarrow> avgpool_1x1 x;
     x \<leftarrow> view_rows x;
     a \<leftarrow> t_add x (p_data (l_weight (bias2 net)));
     Linear_forward (fc net) a
   }"

text \<open>
  \<^verbatim>\<open>FixupResNet18(**kwargs)\<close>: the only keyword the constructor takes besides its two
  positional arguments is \<open>num_classes\<close>, 10 when it is not given.
\<close>

definition FixupResNet18 :: "int option \<Rightarrow> rng \<Rightarrow> (fixup_resnet \<times> rng) option" where
  "FixupResNet18 num_classes g =
     FixupResNet [2, 2, 2, 2] (case num_classes of None \<Rightarrow> 10 | Some n \<Rightarrow> n) g"

section \<open>Shapes of the modules the constructors build\<close>

text \<open>
  What the constructors establish and the initialisation loop keeps: a convolution's weight
  is \<open>[out_channels, in_channels, k, k]\<close>, a scalar parameter is a \<^verbatim>\<open>nn.Linear(1, 1)\<close>
  without bias, and a block has a downsampling convolution or keeps the shape of its input.
\<close>

definition conv_wf :: "conv2d \<Rightarrow> bool" where
  "conv_wf c \<longleftrightarrow>
     shape (p_data (c_weight c)) = [out_channels c, in_channels c, kernel_size c, kernel_size c]"

definition conv_is :: "nat \<Rightarrow> nat \<Rightarrow> nat \<Rightarrow> nat \<Rightarrow> nat \<Rightarrow> conv2d \<Rightarrow> bool" where
  "conv_is cin cout k s p c \<longleftrightarrow>
     conv_wf c \<and> in_channels c = cin \<and> out_channels c = cout \<and> kernel_size c = k \<and>
     c_stride c = s \<and> c_padding c = p"

definition scalar_wf :: "linear_layer \<Rightarrow> bool" where
  "scalar_wf l \<longleftrightarrow> shape (p_data (l_weight l)) = [1, 1] \<and> l_bias l = None"

definition block_wf :: "nat \<Rightarrow> nat \<Rightarrow> nat \<Rightarrow> fixup_block \<Rightarrow> bool" where
  "block_wf cin cout s m \<longleftrightarrow>
     0 < s \<and> conv_is cin cout 3 s 1 (conv1 m) \<and> conv_is cout cout 3 1 1 (conv2 m) \<and>
     scalar_wf (bias1a m) \<and> scalar_wf (bias1b m) \<and> scalar_wf (bias2a m) \<and>
     scalar_wf (scale m) \<and> scalar_wf (bias2b m) \<and>
     (case downsample m of
        None \<Rightarrow> s = 1 \<and> cin = cout
      | Some d \<Rightarrow> conv_is cin cout 1 s 0 d)"

definition layer_wf :: "nat \<Rightarrow> nat \<Rightarrow> nat \<Rightarrow> fixup_block list \<Rightarrow> bool" where
  "layer_wf cin cout s ms \<longleftrightarrow>
     (case ms of
        [] \<Rightarrow> False
      | m # rest \<Rightarrow> block_wf cin cout s m \<and> list_all (block_wf cout cout 1) rest)"

text \<open>The blocks of a network, in the order of the forward pass.\<close>

definition blocks :: "fixup_resnet \<Rightarrow> fixup_block list" where
  "blocks net = layer1 net @ layer2 net @ layer3 net @ layer4 net"

text \<open>
  The forward contract of a block in the words of the specification, section 4.1, steps 1
  to 6, with the same tensor operations. It is compared with \<open>FixupBasicBlock_forward\<close>
  below.
\<close>

definition spec_block_forward :: "fixup_block \<Rightarrow> real tensor \<Rightarrow> real tensor option" where
  "spec_block_forward m x = do {
     a \<leftarrow> t_add x (p_data (l_weight (bias1a m)));
     t \<leftarrow> Conv2d_forward (conv1 m) a;
     a \<leftarrow> t_add t (p_data (l_weight (bias1b m)));
     let t = leaky_relu a;
     a \<leftarrow> t_add t (p_data (l_weight (bias2a m)));
     t \<leftarrow> Conv2d_forward (conv2 m) a;
     a \<leftarrow> t_mul t (p_data (l_weight (scale m)));
     t \<leftarrow> t_add a (p_data (l_weight (bias2b m)));
     identity \<leftarrow>
       (case downsample m of
          Some d \<Rightarrow> do {
            a \<leftarrow> t_add x (p_data (l_weight (bias1a m)));
            Conv2d_forward d a
          }
        | None \<Rightarrow> Some x);
     a \<leftarrow> t_add t identity;
     Some (leaky_relu a)
   }"

section \<open>Recurrent language models: \<^verbatim>\<open>lib/models/language_model.py\<close>\<close>

subsection \<open>More of the tensor runtime\<close>

definition sigmoid :: "real \<Rightarrow> real" where
  "sigmoid v = 1 / (1 + exp (- v))"

text \<open>\<^verbatim>\<open>x[:, t]\<close>; \<open>select_dim1\<close> is the checked form (IndexError past the end).\<close>

definition slice_dim1 :: "real tensor \<Rightarrow> nat \<Rightarrow> real tensor" where
  "slice_dim1 x t =
     \<lparr>shape = (case shape x of B # T # rest \<Rightarrow> B # rest | _ \<Rightarrow> []),
      data = (\<lambda>idx. case idx of b # rest \<Rightarrow> data x (b # t # rest) | [] \<Rightarrow> 0)\<rparr>"

definition select_dim1 :: "real tensor \<Rightarrow> nat \<Rightarrow> real tensor option" where
  "select_dim1 x t =
     (case shape x of
        B # T # rest \<Rightarrow> if t < T then Some (slice_dim1 x t) else None
      | _ \<Rightarrow> None)"

text \<open>\<^verbatim>\<open>h[l]\<close> on the first dimension, for \<open>l\<close> in range.\<close>

definition select_dim0 :: "real tensor \<Rightarrow> nat \<Rightarrow> real tensor" where
  "select_dim0 x l = \<lparr>shape = tl (shape x), data = (\<lambda>idx. data x (l # idx))\<rparr>"

text \<open>
  \<^verbatim>\<open>torch.cat([h.unsqueeze(1) for h in hs], dim=1)\<close>: the tensors of a sequence, each
  \<open>[B, ...]\<close>, become one tensor \<open>[B, T, ...]\<close>. \<^verbatim>\<open>torch.cat\<close> raises on an empty list
  and on tensors of different shapes.
\<close>

definition stack_dim1 :: "real tensor list \<Rightarrow> real tensor option" where
  "stack_dim1 hs =
     (case hs of
        [] \<Rightarrow> None
      | h # _ \<Rightarrow>
          (case shape h of
             [] \<Rightarrow> None
           | B # rest \<Rightarrow>
               if list_all (\<lambda>z. shape z = shape h) hs
               then Some
                 \<lparr>shape = B # length hs # rest,
                  data = (\<lambda>idx. case idx of
                     b # t # r \<Rightarrow> data (hs ! t) (b # r)
                   | _ \<Rightarrow> 0)\<rparr>
               else None))"

text \<open>\<^verbatim>\<open>x.contiguous().view(-1, n)\<close>\<close>

definition view_cols :: "real tensor \<Rightarrow> nat \<Rightarrow> real tensor option" where
  "view_cols x n =
     (if n = 0 \<or> prod_list (shape x) mod n \<noteq> 0 then None
      else Some
        \<lparr>shape = [prod_list (shape x) div n, n],
         data = (\<lambda>idx. case idx of
            [r, k] \<Rightarrow> data x (unravel (shape x) (r * n + k))
          | _ \<Rightarrow> 0)\<rparr>)"

text \<open>\<^verbatim>\<open>F.log_softmax(x, dim=-1)\<close>\<close>

definition log_softmax :: "real tensor \<Rightarrow> real tensor option" where
  "log_softmax x =
     (if shape x = [] then None
      else Some
        \<lparr>shape = shape x,
         data = (\<lambda>idx. data x idx
                   - ln (\<Sum>j \<leftarrow> [0..<last (shape x)]. exp (data x (butlast idx @ [j]))))\<rparr>)"

text \<open>
  \<^verbatim>\<open>F.dropout(x, p, training)\<close>: the identity unless the module is in training mode with
  \<open>p \<noteq> 0\<close>; then each entry is dropped where the generator's uniform sample is below \<open>p\<close>
  and scaled by \<open>1 / (1 - p)\<close> where it is kept.
\<close>

definition dropout_op :: "real \<Rightarrow> bool \<Rightarrow> real tensor \<Rightarrow> rng \<Rightarrow> real tensor \<times> rng" where
  "dropout_op p train x g =
     (if train \<and> p \<noteq> 0
      then (let (z, g) = draw g
            in (\<lparr>shape = shape x,
                 data = (\<lambda>idx. if z idx < p then 0 else data x idx / (1 - p))\<rparr>, g))
      else (x, g))"

subsection \<open>More modules of torch.nn\<close>

text \<open>\<^verbatim>\<open>nn.Dropout(p)\<close>: ValueError unless \<open>0 \<le> p \<le> 1\<close>; a new module is in training mode.\<close>

record dropout_module =
  drop_p :: real
  d_training :: bool

definition Dropout :: "real \<Rightarrow> dropout_module option" where
  "Dropout p = (if p < 0 \<or> 1 < p then None else Some \<lparr>drop_p = p, d_training = True\<rparr>)"

definition Dropout_forward :: "dropout_module \<Rightarrow> real tensor \<Rightarrow> rng \<Rightarrow> real tensor \<times> rng" where
  "Dropout_forward d x g = dropout_op (drop_p d) (d_training d) x g"

text \<open>\<^verbatim>\<open>nn.Embedding(n, d)\<close>; the lookup raises IndexError on an index outside \<open>[0, n)\<close>.\<close>

record embedding =
  num_embeddings :: nat
  embedding_dim :: nat
  e_weight :: param

definition Embedding :: "nat \<Rightarrow> nat \<Rightarrow> rng \<Rightarrow> embedding \<times> rng" where
  "Embedding n d g =
     (let (w, g) = Parameter [n, d] g
      in (\<lparr>num_embeddings = n, embedding_dim = d, e_weight = w\<rparr>, g))"

fun all_indices :: "nat list \<Rightarrow> nat list list" where
  "all_indices [] = [[]]"
| "all_indices (d # ds) = concat (map (\<lambda>i. map (Cons i) (all_indices ds)) [0..<d])"

definition Embedding_forward :: "embedding \<Rightarrow> int tensor \<Rightarrow> real tensor option" where
  "Embedding_forward e inputs =
     (if list_all (\<lambda>idx. 0 \<le> data inputs idx \<and> data inputs idx < int (num_embeddings e))
           (all_indices (shape inputs))
      then Some
        \<lparr>shape = shape inputs @ [embedding_dim e],
         data = (\<lambda>idx. data (p_data (e_weight e)) [nat (data inputs (butlast idx)), last idx])\<rparr>
      else None)"

text \<open>
  \<^verbatim>\<open>nn.LSTMCell(input_size, hidden_size)\<close>. It has four parameters, in this order:
  \<open>weight_ih\<close> \<open>[4h, i]\<close>, \<open>weight_hh\<close> \<open>[4h, h]\<close>, \<open>bias_ih\<close> \<open>[4h]\<close> and \<open>bias_hh\<close> \<open>[4h]\<close>.
\<close>

record lstm_cell =
  input_size :: nat
  hidden_size :: nat
  weight_ih :: param
  weight_hh :: param
  bias_ih :: param
  bias_hh :: param

definition LSTMCell :: "nat \<Rightarrow> nat \<Rightarrow> rng \<Rightarrow> lstm_cell \<times> rng" where
  "LSTMCell i h g =
     (let (w_ih, g) = Parameter [4 * h, i] g;
          (w_hh, g) = Parameter [4 * h, h] g;
          (b_ih, g) = Parameter [4 * h] g;
          (b_hh, g) = Parameter [4 * h] g
      in (\<lparr>input_size = i, hidden_size = h, weight_ih = w_ih, weight_hh = w_hh,
            bias_ih = b_ih, bias_hh = b_hh\<rparr>, g))"

text \<open>
  The LSTM step of torch: row \<open>r\<close> of the pre-activations is
  \<open>W_ih x + b_ih + W_hh h + b_hh\<close>; the rows are the four gates, in the order input,
  forget, cell, output; \<open>c' = \<sigma>(f) * c + \<sigma>(i) * tanh g\<close> and \<open>h' = \<sigma>(o) * tanh c'\<close>.
\<close>

definition lstm_gate ::
  "real tensor \<Rightarrow> real tensor \<Rightarrow> real tensor \<Rightarrow> real tensor \<Rightarrow> nat \<Rightarrow> nat \<Rightarrow>
   real tensor \<Rightarrow> real tensor \<Rightarrow> nat \<Rightarrow> nat \<Rightarrow> real" where
  "lstm_gate w_ih w_hh b_ih b_hh I H x h b r =
     (\<Sum>k \<leftarrow> [0..<I]. data x [b, k] * data w_ih [r, k]) + data b_ih [r]
     + (\<Sum>k \<leftarrow> [0..<H]. data h [b, k] * data w_hh [r, k]) + data b_hh [r]"

definition lstm_step ::
  "real tensor \<Rightarrow> real tensor \<Rightarrow> real tensor \<Rightarrow> real tensor \<Rightarrow> real tensor \<Rightarrow>
   real tensor \<times> real tensor \<Rightarrow> (real tensor \<times> real tensor) option" where
  "lstm_step w_ih w_hh b_ih b_hh x hc =
     (case hc of (h, c) \<Rightarrow>
        (case (shape x, shape h) of
           ([B, I], [B', H]) \<Rightarrow>
             if B' \<noteq> B \<or> shape c \<noteq> [B, H] \<or> shape w_ih \<noteq> [4 * H, I] \<or>
                shape w_hh \<noteq> [4 * H, H] \<or> shape b_ih \<noteq> [4 * H] \<or> shape b_hh \<noteq> [4 * H]
             then None
             else
               let gate = (\<lambda>k b j. lstm_gate w_ih w_hh b_ih b_hh I H x h b (k * H + j));
                   c' = \<lparr>shape = [B, H],
                         data = (\<lambda>idx. case idx of
                            [b, j] \<Rightarrow> sigmoid (gate 1 b j) * data c [b, j]
                                       + sigmoid (gate 0 b j) * tanh (gate 2 b j)
                          | _ \<Rightarrow> 0)\<rparr>;
                   h' = \<lparr>shape = [B, H],
                         data = (\<lambda>idx. case idx of
                            [b, j] \<Rightarrow> sigmoid (gate 3 b j) * tanh (data c' [b, j])
                          | _ \<Rightarrow> 0)\<rparr>
               in Some (h', c')
         | _ \<Rightarrow> None))"

text \<open>
  \<^verbatim>\<open>nn.LSTMCell.forward(x, (h, c))\<close>: the module checks the input and the state against
  its own sizes before the step.
\<close>

definition LSTMCell_forward ::
  "lstm_cell \<Rightarrow> real tensor \<Rightarrow> real tensor \<times> real tensor \<Rightarrow> (real tensor \<times> real tensor) option" where
  "LSTMCell_forward m x hc =
     (case (shape x, shape (fst hc)) of
        ([B, I], [B', H]) \<Rightarrow>
          if I \<noteq> input_size m \<or> H \<noteq> hidden_size m then None
          else lstm_step (p_data (weight_ih m)) (p_data (weight_hh m)) (p_data (bias_ih m))
                 (p_data (bias_hh m)) x hc
      | _ \<Rightarrow> None)"

text \<open>
  \<^verbatim>\<open>nn.LSTM(input_size, hidden_size, num_layers, dropout=p, batch_first=True)\<close>. Its
  parameters live in the dictionary \<^verbatim>\<open>_parameters\<close> under the names
  \<^verbatim>\<open>weight_ih_l0\<close>, \<^verbatim>\<open>weight_hh_l0\<close>, \<^verbatim>\<open>bias_ih_l0\<close>, \<^verbatim>\<open>bias_hh_l0\<close>, and so on for each
  layer; the forward pass reads them from there (the list of flat weights is rebuilt from
  the dictionary by \<^verbatim>\<open>.to(device)\<close>, which the converter calls last).
\<close>

record lstm_module =
  lstm_input_size :: nat
  lstm_hidden_size :: nat
  lstm_num_layers :: nat
  lstm_dropout :: real
  lstm_training :: bool
  lstm_parameters :: "string \<Rightarrow> param option"

fun LSTM_parameters ::
  "nat \<Rightarrow> nat \<Rightarrow> nat list \<Rightarrow> (string \<Rightarrow> param option) \<Rightarrow> rng \<Rightarrow> (string \<Rightarrow> param option) \<times> rng" where
  "LSTM_parameters i h [] ps g = (ps, g)"
| "LSTM_parameters i h (l # ls) ps g =
     (let (w_ih, g) = Parameter [4 * h, if l = 0 then i else h] g;
          (w_hh, g) = Parameter [4 * h, h] g;
          (b_ih, g) = Parameter [4 * h] g;
          (b_hh, g) = Parameter [4 * h] g;
          ps = ps(''weight_ih_l'' @ str_nat l \<mapsto> w_ih, ''weight_hh_l'' @ str_nat l \<mapsto> w_hh,
                  ''bias_ih_l'' @ str_nat l \<mapsto> b_ih, ''bias_hh_l'' @ str_nat l \<mapsto> b_hh)
      in LSTM_parameters i h ls ps g)"

definition LSTM :: "nat \<Rightarrow> nat \<Rightarrow> nat \<Rightarrow> real \<Rightarrow> rng \<Rightarrow> (lstm_module \<times> rng) option" where
  "LSTM i h n_layers p g =
     (if p < 0 \<or> 1 < p then None
      else
        let (ps, g) = LSTM_parameters i h [0..<n_layers] Map.empty g
        in Some (\<lparr>lstm_input_size = i, lstm_hidden_size = h, lstm_num_layers = n_layers,
                  lstm_dropout = p, lstm_training = True, lstm_parameters = ps\<rparr>, g))"

text \<open>One layer over the whole sequence, from the state \<open>hc\<close>; its outputs are the hidden states.\<close>

fun run_layer ::
  "real tensor \<Rightarrow> real tensor \<Rightarrow> real tensor \<Rightarrow> real tensor \<Rightarrow> real tensor list \<Rightarrow>
   real tensor \<times> real tensor \<Rightarrow> real tensor list option" where
  "run_layer w_ih w_hh b_ih b_hh [] hc = Some []"
| "run_layer w_ih w_hh b_ih b_hh (x # xs) hc = do {
     (h, c) \<leftarrow> lstm_step w_ih w_hh b_ih b_hh x hc;
     hs \<leftarrow> run_layer w_ih w_hh b_ih b_hh xs (h, c);
     Some (h # hs)
   }"

text \<open>
  The layers in turn, each on the outputs of the one before, with dropout on the outputs
  of every layer but the last (in training mode only).
\<close>

fun lstm_layers ::
  "lstm_module \<Rightarrow> nat list \<Rightarrow> real tensor list \<Rightarrow> real tensor \<Rightarrow> real tensor \<Rightarrow> rng \<Rightarrow>
   (real tensor list \<times> rng) option" where
  "lstm_layers m [] xs h0 c0 g = Some (xs, g)"
| "lstm_layers m (l # ls) xs h0 c0 g = do {
     w_ih \<leftarrow> lstm_parameters m (''weight_ih_l'' @ str_nat l);
     w_hh \<leftarrow> lstm_parameters m (''weight_hh_l'' @ str_nat l);
     b_ih \<leftarrow> lstm_parameters m (''bias_ih_l'' @ str_nat l);
     b_hh \<leftarrow> lstm_parameters m (''bias_hh_l'' @ str_nat l);
     ys \<leftarrow> run_layer (p_data w_ih) (p_data w_hh) (p_data b_ih) (p_data b_hh) xs
            (select_dim0 h0 l, select_dim0 c0 l);
     (ys, g) \<leftarrow>
       (if ls \<noteq> [] \<and> lstm_training m \<and> lstm_dropout m \<noteq> 0
        then do {
          s \<leftarrow> stack_dim1 ys;
          let (d, g) = dropout_op (lstm_dropout m) True s g;
          Some (map (slice_dim1 d) [0..<length ys], g)
        }
        else Some (ys, g));
     lstm_layers m ls ys h0 c0 g
   }"

text \<open>
  \<^verbatim>\<open>nn.LSTM.forward(x, (h0, c0))\<close> with \<open>x\<close> of shape \<open>[B, T, input_size]\<close>. Of its two
  results the callers in this repository use the output sequence only.
\<close>

definition LSTM_forward ::
  "lstm_module \<Rightarrow> real tensor \<Rightarrow> real tensor \<times> real tensor \<Rightarrow> rng \<Rightarrow> (real tensor \<times> rng) option" where
  "LSTM_forward m x hidden g =
     (case hidden of (h0, c0) \<Rightarrow>
        (case shape x of
           [B, T, I] \<Rightarrow>
             if T = 0 \<or> I \<noteq> lstm_input_size m \<or>
                shape h0 \<noteq> [lstm_num_layers m, B, lstm_hidden_size m] \<or>
                shape c0 \<noteq> [lstm_num_layers m, B, lstm_hidden_size m]
             then None
             else do {
               (ys, g) \<leftarrow> lstm_layers m [0..<lstm_num_layers m] (map (slice_dim1 x) [0..<T]) h0 c0 g;
               out \<leftarrow> stack_dim1 ys;
               Some (out, g)
             }
         | _ \<Rightarrow> None))"

subsection \<open>\<^verbatim>\<open>class MogrifierLSTMCell\<close>\<close>

text \<open>
  An entry of \<^verbatim>\<open>mogrifier_list\<close> is a \<^verbatim>\<open>nn.Linear\<close> (the branch the source comments as
  full rank) or a \<^verbatim>\<open>nn.Sequential\<close> of two (the branch it comments as low rank).
\<close>

datatype transform = Full linear_layer | Low_rank linear_layer linear_layer

fun transform_forward :: "transform \<Rightarrow> real tensor \<Rightarrow> real tensor option" where
  "transform_forward (Full l) x = Linear_forward l x"
| "transform_forward (Low_rank a b) x = do { y \<leftarrow> Linear_forward a x; Linear_forward b y }"

record mogrifier_cell =
  mogrify_steps :: int
  m_lstm :: lstm_cell
  m_hidden_size :: nat
  mogrifier_list :: "transform list"

text \<open>
  The two loops \<^verbatim>\<open>for i in range(1, mogrify_steps)\<close> of the constructor, one in each
  branch; the list they extend already holds the first entry.
\<close>

fun full_rank_loop :: "nat \<Rightarrow> nat \<Rightarrow> nat list \<Rightarrow> rng \<Rightarrow> transform list \<times> rng" where
  "full_rank_loop input hidden [] g = ([], g)"
| "full_rank_loop input hidden (i # is) g =
     (let (l, g) = (if i mod 2 = 0 then Linear hidden input True g
                    else Linear input hidden True g);
          (ts, g) = full_rank_loop input hidden is g
      in (Full l # ts, g))"

fun low_rank_loop :: "nat \<Rightarrow> nat \<Rightarrow> nat \<Rightarrow> nat list \<Rightarrow> rng \<Rightarrow> transform list \<times> rng" where
  "low_rank_loop input hidden k [] g = ([], g)"
| "low_rank_loop input hidden k (i # is) g =
     (let (a, g) = (if i mod 2 = 0 then Linear hidden k False g else Linear input k False g);
          (b, g) = (if i mod 2 = 0 then Linear k input True g else Linear k hidden True g);
          (ts, g) = low_rank_loop input hidden k is g
      in (Low_rank a b # ts, g))"

text \<open>\<^verbatim>\<open>MogrifierLSTMCell.__init__(self, input_size, hidden_size, mogrify_steps, k=90)\<close>\<close>

definition MogrifierLSTMCell :: "nat \<Rightarrow> nat \<Rightarrow> int \<Rightarrow> nat \<Rightarrow> rng \<Rightarrow> mogrifier_cell \<times> rng" where
  "MogrifierLSTMCell input hidden steps k g =
     (let (lstm, g) = LSTMCell input hidden g;
          (ts, g) =
            (if input < k \<or> hidden < k
             then (let (q, g) = Linear hidden input True g;
                       (ts, g) = full_rank_loop input hidden [1..<nat steps] g
                   in (Full q # ts, g))
             else (let (a, g) = Linear hidden k False g;
                       (b, g) = Linear k input True g;
                       (ts, g) = low_rank_loop input hidden k [1..<nat steps] g
                   in (Low_rank a b # ts, g)))
      in (\<lparr>mogrify_steps = steps, m_lstm = lstm, m_hidden_size = hidden, mogrifier_list = ts\<rparr>, g))"

text \<open>\<^verbatim>\<open>(2 * torch.sigmoid(t(src))) * dst\<close>\<close>

definition gate_by :: "transform \<Rightarrow> real tensor \<Rightarrow> real tensor \<Rightarrow> real tensor option" where
  "gate_by t src dst = do {
     a \<leftarrow> transform_forward t src;
     t_mul \<lparr>shape = shape a, data = (\<lambda>idx. 2 * sigmoid (data a idx))\<rparr> dst
   }"

text \<open>\<^verbatim>\<open>MogrifierLSTMCell.mogrify\<close>: the loop \<^verbatim>\<open>for i in range(self.mogrify_steps)\<close>.\<close>

fun mogrify_loop ::
  "transform list \<Rightarrow> nat list \<Rightarrow> real tensor \<Rightarrow> real tensor \<Rightarrow> (real tensor \<times> real tensor) option" where
  "mogrify_loop ts [] x h = Some (x, h)"
| "mogrify_loop ts (i # is) x h =
     (if (i + 1) mod 2 = 0
      then do {
        t \<leftarrow> index ts i;
        h \<leftarrow> gate_by t x h;
        mogrify_loop ts is x h
      }
      else do {
        t \<leftarrow> index ts i;
        x \<leftarrow> gate_by t h x;
        mogrify_loop ts is x h
      })"

definition mogrify :: "mogrifier_cell \<Rightarrow> real tensor \<Rightarrow> real tensor \<Rightarrow> (real tensor \<times> real tensor) option" where
  "mogrify m x h = mogrify_loop (mogrifier_list m) [0..<nat (mogrify_steps m)] x h"

text \<open>\<^verbatim>\<open>MogrifierLSTMCell.forward\<close>\<close>

definition MogrifierLSTMCell_forward ::
  "mogrifier_cell \<Rightarrow> real tensor \<Rightarrow> real tensor \<times> real tensor \<Rightarrow> (real tensor \<times> real tensor) option" where
  "MogrifierLSTMCell_forward m x states =
     (case states of (ht, ct) \<Rightarrow> do {
        (x, ht) \<leftarrow> mogrify m x ht;
        (ht, ct) \<leftarrow> LSTMCell_forward (m_lstm m) x (ht, ct);
        Some (ht, ct)
      })"

text \<open>
  The Mogrifier rounds in the words of the specification, section 4.5: round \<open>i\<close> updates
  \<open>h\<close> from \<open>x\<close> when \<open>(i + 1) mod 2 = 0\<close> and \<open>x\<close> from \<open>h\<close> otherwise; \<open>n\<close> rounds are the
  rounds \<open>0, ..., n - 1\<close> in this order. It is compared with \<open>mogrify\<close> below.
\<close>

definition spec_round :: "transform list \<Rightarrow> nat \<Rightarrow> real tensor \<times> real tensor \<Rightarrow> (real tensor \<times> real tensor) option" where
  "spec_round ts i xh =
     (case xh of (x, h) \<Rightarrow>
        (case index ts i of
           None \<Rightarrow> None
         | Some t \<Rightarrow>
             if (i + 1) mod 2 = 0 then map_option (\<lambda>h'. (x, h')) (gate_by t x h)
             else map_option (\<lambda>x'. (x', h)) (gate_by t h x)))"

primrec spec_rounds :: "transform list \<Rightarrow> nat \<Rightarrow> real tensor \<times> real tensor \<Rightarrow> (real tensor \<times> real tensor) option" where
  "spec_rounds ts 0 xh = Some xh"
| "spec_rounds ts (Suc n) xh = Option.bind (spec_rounds ts n xh) (spec_round ts n)"

text \<open>Which kind an entry of \<^verbatim>\<open>mogrifier_list\<close> is, and between which sizes it maps.\<close>

fun is_full :: "nat \<Rightarrow> nat \<Rightarrow> transform \<Rightarrow> bool" where
  "is_full src dst (Full l) \<longleftrightarrow>
     shape (p_data (l_weight l)) = [dst, src] \<and> l_bias l \<noteq> None"
| "is_full src dst (Low_rank a b) \<longleftrightarrow> False"

fun is_factored :: "nat \<Rightarrow> nat \<Rightarrow> nat \<Rightarrow> transform \<Rightarrow> bool" where
  "is_factored src k dst (Full l) \<longleftrightarrow> False"
| "is_factored src k dst (Low_rank a b) \<longleftrightarrow>
     shape (p_data (l_weight a)) = [k, src] \<and> l_bias a = None \<and>
     shape (p_data (l_weight b)) = [dst, k] \<and> l_bias b \<noteq> None"

subsection \<open>\<^verbatim>\<open>class LanguageModel\<close>\<close>

text \<open>
  The attributes \<^verbatim>\<open>lstm1\<close> and \<^verbatim>\<open>lstm2\<close> hold a \<^verbatim>\<open>nn.LSTMCell\<close>, or a
  \<^verbatim>\<open>MogrifierLSTMCell\<close> in the subclass \<^verbatim>\<open>MogrifierLanguageModel\<close>, which inherits
  \<^verbatim>\<open>forward\<close>.
\<close>

datatype cell = Plain lstm_cell | Mogrifier mogrifier_cell

fun cell_forward ::
  "cell \<Rightarrow> real tensor \<Rightarrow> real tensor \<times> real tensor \<Rightarrow> (real tensor \<times> real tensor) option" where
  "cell_forward (Plain m) x hc = LSTMCell_forward m x hc"
| "cell_forward (Mogrifier m) x hc = MogrifierLSTMCell_forward m x hc"

fun cell_hidden_size :: "cell \<Rightarrow> nat" where
  "cell_hidden_size (Plain m) = hidden_size m"
| "cell_hidden_size (Mogrifier m) = m_hidden_size m"

record language_model =
  emb_vectors :: embedding
  lstm1 :: cell
  logits :: linear_layer
  lstm2 :: cell
  lm_dropout :: dropout_module

text \<open>
  \<^verbatim>\<open>LanguageModel.__init__(self, voc_size, emb_size, hid_size, drop_prob=0.1)\<close>, with
  \<^verbatim>\<open>init_weights\<close>, which zeroes the bias of \<^verbatim>\<open>logits\<close>.
\<close>

definition LanguageModel ::
  "nat \<Rightarrow> nat \<Rightarrow> nat \<Rightarrow> real \<Rightarrow> rng \<Rightarrow> (language_model \<times> rng) option" where
  "LanguageModel voc_size emb_size hid_size drop_prob g = do {
     let (emb, g) = Embedding voc_size emb_size g;
     let (l1, g) = LSTMCell emb_size hid_size g;
     let (lg, g) = Linear hid_size voc_size True g;
     let (l2, g) = LSTMCell hid_size hid_size g;
     d \<leftarrow> Dropout drop_prob;
     let lg = lg\<lparr>l_bias := map_option (\<lambda>b. init_constant b 0) (l_bias lg)\<rparr>;
     Some (\<lparr>emb_vectors = emb, lstm1 = Plain l1, logits = lg, lstm2 = Plain l2, lm_dropout = d\<rparr>, g)
   }"

text \<open>
  \<^verbatim>\<open>MogrifierLanguageModel.__init__(self, mogrify_steps, voc_size, emb_size, hid_size,
  drop_prob=0.1)\<close>
\<close>

definition MogrifierLanguageModel ::
  "int \<Rightarrow> nat \<Rightarrow> nat \<Rightarrow> nat \<Rightarrow> real \<Rightarrow> rng \<Rightarrow> (language_model \<times> rng) option" where
  "MogrifierLanguageModel steps voc_size emb_size hid_size drop_prob g = do {
     (m, g) \<leftarrow> LanguageModel voc_size emb_size hid_size drop_prob g;
     let (l1, g) = MogrifierLSTMCell emb_size hid_size steps 90 g;
     let (l2, g) = MogrifierLSTMCell hid_size hid_size steps 90 g;
     Some (m\<lparr>lstm1 := Mogrifier l1, lstm2 := Mogrifier l2\<rparr>, g)
   }"

text \<open>
  \<^verbatim>\<open>LanguageModel.forward(self, inputs, initial_state=None)\<close>. \<open>lm_loop\<close> is its loop
  \<^verbatim>\<open>for step in range(seq_length)\<close>; \<open>LanguageModel_run\<close> is the forward pass from the
  states the two cells start in. The argument \<open>initial_state\<close> is never read.
\<close>

fun lm_loop ::
  "language_model \<Rightarrow> real tensor \<Rightarrow> nat list \<Rightarrow> real tensor \<times> real tensor \<Rightarrow>
   real tensor \<times> real tensor \<Rightarrow> rng \<Rightarrow> (real tensor list \<times> rng) option" where
  "lm_loop m embs [] s1 s2 g = Some ([], g)"
| "lm_loop m embs (step # steps) s1 s2 g = do {
     x \<leftarrow> select_dim1 embs step;
     (h1, c1) \<leftarrow> cell_forward (lstm1 m) x s1;
     let (d, g) = Dropout_forward (lm_dropout m) h1 g;
     (h2, c2) \<leftarrow> cell_forward (lstm2 m) d s2;
     (hid_seq, g) \<leftarrow> lm_loop m embs steps (h1, c1) (h2, c2) g;
     Some (h2 # hid_seq, g)
   }"

definition LanguageModel_run ::
  "language_model \<Rightarrow> int tensor \<Rightarrow> real tensor \<times> real tensor \<Rightarrow> real tensor \<times> real tensor \<Rightarrow>
   rng \<Rightarrow> (real tensor \<times> rng) option" where
  "LanguageModel_run m inputs s1 s2 g = do {
     seq_length \<leftarrow> (if shape inputs = [] then None else Some (last (shape inputs)));
     embs \<leftarrow> Embedding_forward (emb_vectors m) inputs;
     (hid_seq, g) \<leftarrow> lm_loop m embs [0..<seq_length] s1 s2 g;
     hs \<leftarrow> stack_dim1 hid_seq;
     let (hs, g) = Dropout_forward (lm_dropout m) hs g;
     outputs \<leftarrow> Linear_forward (logits m) hs;
     y \<leftarrow> log_softmax outputs;
     Some (y, g)
   }"

definition LanguageModel_forward ::
  "language_model \<Rightarrow> int tensor \<Rightarrow> 's option \<Rightarrow> rng \<Rightarrow> (real tensor \<times> rng) option" where
  "LanguageModel_forward m inputs initial_state g = do {
     batch_size \<leftarrow> index (shape inputs) 0;
     let s1 = (zeros [batch_size, cell_hidden_size (lstm1 m)],
               zeros [batch_size, cell_hidden_size (lstm1 m)]);
     let s2 = (zeros [batch_size, cell_hidden_size (lstm2 m)],
               zeros [batch_size, cell_hidden_size (lstm2 m)]);
     LanguageModel_run m inputs s1 s2 g
   }"

subsection \<open>\<^verbatim>\<open>class CudnnLanguageModel\<close> and \<^verbatim>\<open>convert_to_cudnn_lstm\<close>\<close>

record cudnn_language_model =
  c_emb_vectors :: embedding
  c_logits :: linear_layer
  c_lstm :: lstm_module
  c_dropout :: dropout_module
  c_num_layers :: nat

text \<open>
  \<^verbatim>\<open>CudnnLanguageModel.__init__(self, voc_size, emb_size, hid_size, drop_prob=0.1,
  num_layers=2)\<close>; it builds \<^verbatim>\<open>logits\<close> twice and keeps the second.
\<close>

definition CudnnLanguageModel ::
  "nat \<Rightarrow> nat \<Rightarrow> nat \<Rightarrow> real \<Rightarrow> nat \<Rightarrow> rng \<Rightarrow> (cudnn_language_model \<times> rng) option" where
  "CudnnLanguageModel voc_size emb_size hid_size drop_prob n_layers g = do {
     let (emb, g) = Embedding voc_size emb_size g;
     let (lg, g) = Linear hid_size voc_size True g;
     (lstm, g) \<leftarrow> LSTM emb_size hid_size n_layers drop_prob g;
     d \<leftarrow> Dropout drop_prob;
     let (lg, g) = Linear hid_size voc_size True g;
     Some (\<lparr>c_emb_vectors = emb, c_logits = lg, c_lstm = lstm, c_dropout = d,
            c_num_layers = n_layers\<rparr>, g)
   }"

text \<open>
  \<^verbatim>\<open>CudnnLanguageModel.forward(self, inputs, initial_state=None)\<close>. The local variable
  \<open>hidden\<close> is assigned only when \<open>initial_state\<close> is \<open>None\<close>; otherwise its use in
  \<^verbatim>\<open>self.lstm(embs, hidden)\<close> raises UnboundLocalError. \<open>CudnnLanguageModel_run\<close> is the
  forward pass from a bound \<open>hidden\<close>.
\<close>

definition CudnnLanguageModel_run ::
  "cudnn_language_model \<Rightarrow> real tensor \<Rightarrow> real tensor \<times> real tensor \<Rightarrow> rng \<Rightarrow>
   (real tensor \<times> rng) option" where
  "CudnnLanguageModel_run m embs hidden g = do {
     (r_output, g) \<leftarrow> LSTM_forward (c_lstm m) embs hidden g;
     let (out, g) = Dropout_forward (c_dropout m) r_output g;
     out \<leftarrow> view_cols out (lstm_hidden_size (c_lstm m));
     lg \<leftarrow> Linear_forward (c_logits m) out;
     y \<leftarrow> log_softmax lg;
     Some (y, g)
   }"

definition CudnnLanguageModel_forward ::
  "cudnn_language_model \<Rightarrow> int tensor \<Rightarrow> 's option \<Rightarrow> rng \<Rightarrow> (real tensor \<times> rng) option" where
  "CudnnLanguageModel_forward m inputs initial_state g = do {
     embs \<leftarrow> Embedding_forward (c_emb_vectors m) inputs;
     hidden \<leftarrow>
       (case initial_state of
          None \<Rightarrow> do {
            batch_size \<leftarrow> index (shape inputs) 0;
            Some (zeros [c_num_layers m, batch_size, lstm_hidden_size (c_lstm m)],
                  zeros [c_num_layers m, batch_size, lstm_hidden_size (c_lstm m)])
          }
        | Some _ \<Rightarrow> None);
     CudnnLanguageModel_run m embs hidden g
   }"

text \<open>
  \<^verbatim>\<open>named_parameters()\<close> of a cell, of a \<^verbatim>\<open>nn.Linear\<close> and of an entry of
  \<^verbatim>\<open>mogrifier_list\<close>: the parameters with their qualified names, in the order of
  registration.
\<close>

definition with_prefix :: "string \<Rightarrow> (string \<times> param) list \<Rightarrow> (string \<times> param) list" where
  "with_prefix p xs = map (\<lambda>(n, w). (p @ n, w)) xs"

definition Linear_named_parameters :: "linear_layer \<Rightarrow> (string \<times> param) list" where
  "Linear_named_parameters l =
     (''weight'', l_weight l) # (case l_bias l of None \<Rightarrow> [] | Some b \<Rightarrow> [(''bias'', b)])"

definition LSTMCell_named_parameters :: "lstm_cell \<Rightarrow> (string \<times> param) list" where
  "LSTMCell_named_parameters m =
     [(''weight_ih'', weight_ih m), (''weight_hh'', weight_hh m),
      (''bias_ih'', bias_ih m), (''bias_hh'', bias_hh m)]"

fun transform_named_parameters :: "transform \<Rightarrow> (string \<times> param) list" where
  "transform_named_parameters (Full l) = Linear_named_parameters l"
| "transform_named_parameters (Low_rank a b) =
     with_prefix ''0.'' (Linear_named_parameters a) @ with_prefix ''1.'' (Linear_named_parameters b)"

fun cell_named_parameters :: "cell \<Rightarrow> (string \<times> param) list" where
  "cell_named_parameters (Plain m) = LSTMCell_named_parameters m"
| "cell_named_parameters (Mogrifier m) =
     with_prefix ''lstm.'' (LSTMCell_named_parameters (m_lstm m)) @
     concat (map (\<lambda>(i, t). with_prefix (''mogrifier_list.'' @ str_nat i @ ''.'')
                              (transform_named_parameters t))
               (enumerate 0 (mogrifier_list m)))"

text \<open>
  \<^verbatim>\<open>for name, weights in cell.named_parameters():
      cudnn_model.lstm._parameters[name + sfx] = deepcopy(weights)\<close>
\<close>

fun copy_parameters ::
  "(string \<times> param) list \<Rightarrow> string \<Rightarrow> (string \<Rightarrow> param option) \<Rightarrow> (string \<Rightarrow> param option)" where
  "copy_parameters [] sfx ps = ps"
| "copy_parameters ((name, weights) # rest) sfx ps =
     copy_parameters rest sfx (ps(name @ sfx \<mapsto> weights))"

text \<open>
  \<^verbatim>\<open>ps[key].requires_grad = False; ps[key].zero_()\<close>, KeyError when the key is missing.
\<close>

definition frozen :: "param \<Rightarrow> param" where
  "frozen w = w\<lparr>p_data := zeros (shape (p_data w)), requires_grad := False\<rparr>"

definition freeze_zero :: "string \<Rightarrow> (string \<Rightarrow> param option) \<Rightarrow> (string \<Rightarrow> param option) option" where
  "freeze_zero key ps =
     (case ps key of
        None \<Rightarrow> None
      | Some w \<Rightarrow> Some (ps(key \<mapsto> frozen w)))"

text \<open>\<^verbatim>\<open>convert_to_cudnn_lstm(model)\<close>\<close>

definition convert_to_cudnn_lstm ::
  "language_model \<Rightarrow> rng \<Rightarrow> (cudnn_language_model \<times> rng) option" where
  "convert_to_cudnn_lstm model g = do {
     (voc_size, hid_size) \<leftarrow>
       (case shape (p_data (l_weight (logits model))) of [v, h] \<Rightarrow> Some (v, h) | _ \<Rightarrow> None);
     emb_size \<leftarrow> index (shape (p_data (e_weight (emb_vectors model)))) 1;
     (cudnn_model, g) \<leftarrow> CudnnLanguageModel voc_size emb_size hid_size 0.1 2 g;
     let cudnn_model = cudnn_model\<lparr>c_emb_vectors := emb_vectors model\<rparr>;
     let cudnn_model = cudnn_model\<lparr>c_logits := logits model\<rparr>;
     let ps = copy_parameters (cell_named_parameters (lstm1 model)) ''_l0''
                (lstm_parameters (c_lstm cudnn_model));
     ps \<leftarrow> freeze_zero ''bias_hh_l0'' ps;
     let ps = copy_parameters (cell_named_parameters (lstm2 model)) ''_l1'' ps;
     ps \<leftarrow> freeze_zero ''bias_hh_l1'' ps;
     Some (cudnn_model\<lparr>c_lstm := (c_lstm cudnn_model)\<lparr>lstm_parameters := ps\<rparr>\<rparr>, g)
   }"





subsection \<open>Two small language models\<close>

text \<open>
  Vocabulary 2, embedding size 1, hidden size 1. The constructor draws eleven tensors;
  the sixth is the weight of \<^verbatim>\<open>logits\<close>, the tenth and the eleventh are the \<^verbatim>\<open>bias_ih\<close>
  and the \<^verbatim>\<open>bias_hh\<close> of \<^verbatim>\<open>lstm2\<close>. Under both generators below the entry \<open>[0, 0]\<close> of
  the weight of \<^verbatim>\<open>logits\<close> is 1/2 and one bias of \<^verbatim>\<open>lstm2\<close> has its four entries 1/2:
  \<^verbatim>\<open>bias_hh\<close> under \<open>example_rng\<close>, \<^verbatim>\<open>bias_ih\<close> under \<open>witness_rng\<close>. Every other entry is
  drawn as zero, and so is every tensor under \<open>zero_rng\<close>. The input is the one-token
  batch \<open>[[0]]\<close>.
\<close>

definition zero_rng :: rng where
  "zero_rng n idx = 0"


definition witness_rng :: rng where
  "witness_rng n idx = (if (n = 5 \<and> idx = [0, 0]) \<or> n = 9 then 1 / 2 else 0)"


definition witness_model :: language_model where
  "witness_model = fst (the (LanguageModel 2 1 1 0.1 witness_rng))"

definition example_inputs :: "int tensor" where
  "example_inputs = \<lparr>shape = [1, 1], data = (\<lambda>_. 0)\<rparr>"

text \<open>The model the converter returns, and the entry \<open>idx\<close> of a forward pass's output.\<close>

definition converted :: "language_model \<Rightarrow> cudnn_language_model" where
  "converted m = fst (the (convert_to_cudnn_lstm m zero_rng))"


section \<open>Properties of the tensor runtime and of the constructors\<close>

lemma broadcast_rev_same: "broadcast_rev xs xs = Some xs"
  by (induction xs) auto

lemma broadcast_shapes_same: "broadcast_shapes s s = Some s"
  by (simp add: broadcast_shapes_def broadcast_rev_same)

lemma broadcast_rev_nil2: "broadcast_rev xs [] = Some xs"
  by (cases xs) auto

lemma broadcast_shapes_11: "2 \<le> length a \<Longrightarrow> broadcast_shapes a [1, 1] = Some a"
proof -
  assume len: "2 \<le> length a"
  then obtain x y r where r: "rev a = x # y # r"
    by (cases "rev a"; cases "tl (rev a)") (auto simp: Suc_le_eq)
  have "broadcast_rev (rev a) [1, 1] = Some (rev a)"
    by (simp add: r broadcast_rev_nil2)
  then have "map_option rev (broadcast_rev (rev a) (rev [1, 1])) = Some (rev (rev a))"
    by simp
  then show ?thesis by (simp add: broadcast_shapes_def)
qed

lemma broadcast_shapes_Suc [simp]: "2 \<le> length a \<Longrightarrow> broadcast_shapes a [Suc 0, Suc 0] = Some a"
  using broadcast_shapes_11 [of a] by simp

lemma t_add_scalar:
  "shape b = [1, 1] \<Longrightarrow> 2 \<le> length (shape a) \<Longrightarrow> \<exists>y. t_add a b = Some y \<and> shape y = shape a"
  by (simp add: t_add_def pointwise_def broadcast_shapes_11)

lemma t_mul_scalar:
  "shape b = [1, 1] \<Longrightarrow> 2 \<le> length (shape a) \<Longrightarrow> \<exists>y. t_mul a b = Some y \<and> shape y = shape a"
  by (simp add: t_mul_def pointwise_def broadcast_shapes_11)

lemma t_iadd_same:
  "shape b = shape a \<Longrightarrow> \<exists>y. t_iadd a b = Some y \<and> shape y = shape a"
  by (simp add: t_iadd_def t_add_def pointwise_def broadcast_shapes_same)

lemma shape_leaky_relu [simp]: "shape (leaky_relu x) = shape x"
  by (simp add: leaky_relu_def)

lemma Conv2d_forward_shape:
  assumes "conv_is cin cout k s p c" "shape x = [B, cin, H, W]" "0 < s" "k \<le> H + 2 * p" "k \<le> W + 2 * p"
  shows "\<exists>y. Conv2d_forward c x = Some y \<and>
             shape y = [B, cout, (H + 2 * p - k) div s + 1, (W + 2 * p - k) div s + 1]"
  using assms by (auto simp: Conv2d_forward_def conv2d_op_def conv_is_def conv_wf_def)


lemma FixupBasicBlock_forward_shape:
  assumes wf: "block_wf cin cout s m" and x: "shape x = [B, cin, H, W]" and H: "0 < H" and W: "0 < W"
  shows "\<exists>y. FixupBasicBlock_forward m x = Some y \<and>
             shape y = [B, cout, (H - 1) div s + 1, (W - 1) div s + 1]"
proof -
  let ?H = "(H - 1) div s + 1" and ?W = "(W - 1) div s + 1"
  from wf have s: "0 < s" and c1: "conv_is cin cout 3 s 1 (conv1 m)"
    and c2: "conv_is cout cout 3 1 1 (conv2 m)"
    and b1a: "shape (p_data (l_weight (bias1a m))) = [1, 1]"
    and b1b: "shape (p_data (l_weight (bias1b m))) = [1, 1]"
    and b2a: "shape (p_data (l_weight (bias2a m))) = [1, 1]"
    and sc: "shape (p_data (l_weight (scale m))) = [1, 1]"
    and b2b: "shape (p_data (l_weight (bias2b m))) = [1, 1]"
    by (simp_all add: block_wf_def scalar_wf_def)
  obtain a1 where a1: "t_add x (p_data (l_weight (bias1a m))) = Some a1" "shape a1 = [B, cin, H, W]"
    using t_add_scalar [OF b1a, of x] x by auto
  obtain o1 where o1: "Conv2d_forward (conv1 m) a1 = Some o1" "shape o1 = [B, cout, ?H, ?W]"
    using Conv2d_forward_shape [OF c1 a1(2) s] H W by auto
  obtain a2 where a2: "t_add o1 (p_data (l_weight (bias1b m))) = Some a2" "shape a2 = [B, cout, ?H, ?W]"
    using t_add_scalar [OF b1b, of o1] o1 by auto
  obtain a3 where a3: "t_add (leaky_relu a2) (p_data (l_weight (bias2a m))) = Some a3"
      "shape a3 = [B, cout, ?H, ?W]"
    using t_add_scalar [OF b2a, of "leaky_relu a2"] a2 by auto
  obtain o2 where o2: "Conv2d_forward (conv2 m) a3 = Some o2" "shape o2 = [B, cout, ?H, ?W]"
    using Conv2d_forward_shape [OF c2 a3(2)] by auto
  obtain a4 where a4: "t_mul o2 (p_data (l_weight (scale m))) = Some a4" "shape a4 = [B, cout, ?H, ?W]"
    using t_mul_scalar [OF sc, of o2] o2 by auto
  obtain o3 where o3: "t_add a4 (p_data (l_weight (bias2b m))) = Some o3" "shape o3 = [B, cout, ?H, ?W]"
    using t_add_scalar [OF b2b, of a4] a4 by auto
  have "\<exists>i. (case downsample m of None \<Rightarrow> Some x
              | Some d \<Rightarrow> Option.bind (t_add x (p_data (l_weight (bias1a m)))) (Conv2d_forward d)) = Some i
            \<and> shape i = [B, cout, ?H, ?W]"
  proof (cases "downsample m")
    case None
    with wf have "s = 1" "cin = cout" by (simp_all add: block_wf_def)
    with None x H W show ?thesis by simp
  next
    case (Some d)
    with wf have d: "conv_is cin cout 1 s 0 d" by (simp add: block_wf_def)
    show ?thesis
      using Conv2d_forward_shape [OF d a1(2) s] H W Some a1(1) by auto
  qed
  then obtain i where i: "(case downsample m of None \<Rightarrow> Some x
              | Some d \<Rightarrow> Option.bind (t_add x (p_data (l_weight (bias1a m)))) (Conv2d_forward d)) = Some i"
      "shape i = [B, cout, ?H, ?W]"
    by blast
  obtain o4 where o4: "t_iadd o3 i = Some o4" "shape o4 = [B, cout, ?H, ?W]"
    using t_iadd_same [of i o3] i o3 by auto
  show ?thesis
    by (simp add: FixupBasicBlock_forward_def a1 o1 a2 a3 o2 a4 o3 i o4)
qed


lemma Sequential_forward_same:
  assumes "list_all (block_wf c c 1) ms" "shape x = [B, c, H, W]" "0 < H" "0 < W"
  shows "\<exists>y. Sequential_forward ms x = Some y \<and> shape y = [B, c, H, W]"
  using assms
proof (induction ms arbitrary: x)
  case Nil
  then show ?case by simp
next
  case (Cons m ms)
  from Cons.prems have m: "block_wf c c 1 m" and ms: "list_all (block_wf c c 1) ms" by simp_all
  obtain y where y: "FixupBasicBlock_forward m x = Some y" "shape y = [B, c, H, W]"
    using FixupBasicBlock_forward_shape [OF m Cons.prems(2) Cons.prems(3) Cons.prems(4)]
      Cons.prems(3) Cons.prems(4) by auto
  from Cons.IH [OF ms y(2) Cons.prems(3) Cons.prems(4)] y(1) show ?case by simp
qed

lemma Sequential_forward_shape:
  assumes wf: "layer_wf cin cout s ms" and x: "shape x = [B, cin, H, W]" and H: "0 < H" and W: "0 < W"
  shows "\<exists>y. Sequential_forward ms x = Some y \<and>
             shape y = [B, cout, (H - 1) div s + 1, (W - 1) div s + 1]"
proof -
  from wf obtain m rest where ms: "ms = m # rest" and m: "block_wf cin cout s m"
    and rest: "list_all (block_wf cout cout 1) rest"
    by (auto simp: layer_wf_def split: list.splits)
  obtain y where y: "FixupBasicBlock_forward m x = Some y"
      "shape y = [B, cout, (H - 1) div s + 1, (W - 1) div s + 1]"
    using FixupBasicBlock_forward_shape [OF m x H W] by auto
  from Sequential_forward_same [OF rest y(2)] y(1) ms show ?thesis by simp
qed


subsection \<open>Names\<close>

declare str_nat.simps [simp del]

lemma digit_char_in: "d < 10 \<Longrightarrow> digit_char d \<in> set ''0123456789''"
  unfolding digit_char_def by (rule nth_mem) simp

lemma set_str_nat: "set (str_nat n) \<subseteq> set ''0123456789''"
proof (induction n rule: str_nat.induct)
  case (1 n)
  show ?case
  proof (cases "n < 10")
    case True
    then show ?thesis using digit_char_in [of n] by (subst str_nat.simps) simp
  next
    case False
    have "digit_char (n mod 10) \<in> set ''0123456789''" by (rule digit_char_in) simp
    with False 1 show ?thesis by (subst str_nat.simps) simp
  qed
qed

lemma contains_needs_c: "CHR ''c'' \<notin> set s \<Longrightarrow> \<not> contains ''scale'' s"
proof (induction s)
  case Nil
  then show ?case by simp
next
  case (Cons x s)
  have "\<not> prefix ''scale'' (x # s)"
  proof
    assume "prefix ''scale'' (x # s)"
    then have "set ''scale'' \<subseteq> set (x # s)" by (rule set_mono_prefix)
    with Cons.prems show False by auto
  qed
  with Cons show ?case by simp
qed

lemma contains_suffix: "contains sub (p @ sub)"
proof (induction p)
  case Nil
  show ?case by (cases sub) simp_all
next
  case (Cons x p)
  then show ?case by simp
qed

lemma str_nat_no_c: "CHR ''c'' \<notin> set (str_nat n)"
  using set_str_nat [of n] by auto


subsection \<open>Constructors\<close>

lemma Linear_scalar_wf: "scalar_wf (fst (Linear 1 1 False g))"
  by (simp add: Linear_def Parameter_def draw_def scalar_wf_def)

lemma Conv2d_conv_is: "conv_is cin cout k s p (fst (Conv2d cin cout k s p g))"
  by (simp add: Conv2d_def Parameter_def draw_def conv_is_def conv_wf_def)

lemma FixupBasicBlock_wf:
  assumes "0 < stride"
    and "case dsample of None \<Rightarrow> stride = 1 \<and> inplanes = planes
         | Some d \<Rightarrow> conv_is inplanes planes 1 stride 0 d"
  shows "block_wf inplanes planes stride (fst (FixupBasicBlock inplanes planes stride dsample g))"
  using assms
  by (simp add: FixupBasicBlock_def block_wf_def split_def Let_def conv3x3_def
      Linear_scalar_wf Conv2d_conv_is del: One_nat_def)

lemma more_blocks_wf: "list_all (block_wf c c 1) (fst (more_blocks n c c g))"
proof (induction n arbitrary: g)
  case 0
  show ?case by simp
next
  case (Suc n)
  have "block_wf c c 1 (fst (FixupBasicBlock c c 1 None g))"
    by (rule FixupBasicBlock_wf) simp_all
  with Suc show ?case by (simp add: split_def Let_def del: One_nat_def)
qed

lemma make_layer_wf:
  assumes "0 < stride"
  shows "layer_wf inplanes planes stride (fst (fst (make_layer inplanes planes n stride g)))"
    and "snd (fst (make_layer inplanes planes n stride g)) = planes"
proof -
  show "snd (fst (make_layer inplanes planes n stride g)) = planes"
    by (simp add: make_layer_def split_def Let_def expansion_def)
  show "layer_wf inplanes planes stride (fst (fst (make_layer inplanes planes n stride g)))"
  proof (cases "stride \<noteq> 1 \<or> inplanes \<noteq> planes")
    case True
    let ?d = "fst (conv1x1 inplanes planes stride g)" and ?g = "snd (conv1x1 inplanes planes stride g)"
    have "block_wf inplanes planes stride (fst (FixupBasicBlock inplanes planes stride (Some ?d) ?g))"
      by (rule FixupBasicBlock_wf) (simp_all add: assms conv1x1_def Conv2d_conv_is)
    with True show ?thesis
      by (simp add: make_layer_def split_def Let_def expansion_def layer_wf_def more_blocks_wf
          del: One_nat_def)
  next
    case False
    have "block_wf inplanes planes stride (fst (FixupBasicBlock inplanes planes stride None g))"
      using False by (intro FixupBasicBlock_wf) simp_all
    with False show ?thesis
      by (simp add: make_layer_def split_def Let_def expansion_def layer_wf_def more_blocks_wf
          del: One_nat_def)
  qed
qed

subsection \<open>The initialisation loop\<close>

lemma shape_init_constant [simp]: "shape (p_data (init_constant p c)) = shape (p_data p)"
  by (simp add: init_constant_def)

lemma data_init_constant [simp]: "data (p_data (init_constant p c)) = (\<lambda>_. c)"
  by (simp add: init_constant_def)

lemma p_init_init_constant [simp]: "p_init (init_constant p c) = Constant_init c"
  by (simp add: init_constant_def)

lemma shape_init_normal [simp]: "shape (p_data (fst (init_normal p m sd g))) = shape (p_data p)"
  by (simp add: init_normal_def draw_def)

lemma p_init_init_normal [simp]: "p_init (fst (init_normal p m sd g)) = Normal_init m sd"
  by (simp add: init_normal_def draw_def)

lemma init_linear_weight_shape [simp]:
  "shape (p_data (l_weight (init_linear name m))) = shape (p_data (l_weight m))"
  by (simp add: init_linear_def Let_def split: option.splits)

lemma init_linear_bias [simp]:
  "l_bias (init_linear name m) = map_option (\<lambda>b. init_constant b 0) (l_bias m)"
  by (simp add: init_linear_def Let_def split: option.splits)

lemma init_linear_weight_data [simp]:
  "data (p_data (l_weight (init_linear name m))) = (\<lambda>_. if contains ''scale'' name then 1 else 0)"
  by (simp add: init_linear_def Let_def split: option.splits)

lemma init_linear_weight_init [simp]:
  "p_init (l_weight (init_linear name m)) = Constant_init (if contains ''scale'' name then 1 else 0)"
  by (simp add: init_linear_def Let_def split: option.splits)

lemma init_linear_scalar_wf: "scalar_wf m \<Longrightarrow> scalar_wf (init_linear name m)"
  by (simp add: scalar_wf_def)

lemma conv_is_weight_update:
  "conv_is cin cout k s p c \<Longrightarrow> shape (p_data w) = shape (p_data (c_weight c)) \<Longrightarrow>
   conv_is cin cout k s p (c\<lparr>c_weight := w\<rparr>)"
  by (simp add: conv_is_def conv_wf_def)


lemmas init_block_unfold =
  init_block_modules_def init_block_def Let_def split_def Option.bind_eq_Some_conv

lemma init_block_modules_pos:
  "init_block_modules L name m g = Some (m', g') \<Longrightarrow> 0 < L"
  by (auto simp: init_block_unfold split: if_splits)

lemma init_block_modules_conv1:
  assumes "init_block_modules L name m g = Some (m', g')"
  shows "p_init (c_weight (conv1 m')) =
           Normal_init 0 (sqrt (2 / real (fan_term (c_weight (conv1 m)))) * real_of_int L powr (- 0.5))"
    and "shape (p_data (c_weight (conv1 m'))) = shape (p_data (c_weight (conv1 m)))"
    and "out_channels (conv1 m') = out_channels (conv1 m)"
    and "in_channels (conv1 m') = in_channels (conv1 m)"
    and "kernel_size (conv1 m') = kernel_size (conv1 m)"
    and "c_stride (conv1 m') = c_stride (conv1 m)"
    and "c_padding (conv1 m') = c_padding (conv1 m)"
  using assms by (auto simp: init_block_unfold split: if_splits)

lemma init_block_modules_conv2:
  assumes "init_block_modules L name m g = Some (m', g')"
  shows "data (p_data (c_weight (conv2 m'))) = (\<lambda>_. 0)"
    and "p_init (c_weight (conv2 m')) = Constant_init 0"
    and "shape (p_data (c_weight (conv2 m'))) = shape (p_data (c_weight (conv2 m)))"
    and "out_channels (conv2 m') = out_channels (conv2 m)"
    and "in_channels (conv2 m') = in_channels (conv2 m)"
    and "kernel_size (conv2 m') = kernel_size (conv2 m)"
    and "c_stride (conv2 m') = c_stride (conv2 m)"
    and "c_padding (conv2 m') = c_padding (conv2 m)"
  using assms by (auto simp: init_block_unfold split: if_splits)

lemma init_block_modules_downsample_None:
  assumes "init_block_modules L name m g = Some (m', g')"
  shows "downsample m' = None \<longleftrightarrow> downsample m = None"
  using assms by (auto simp: init_block_unfold split: if_splits option.splits)

lemma init_block_modules_downsample_Some:
  assumes "init_block_modules L name m g = Some (m', g')" and "downsample m' = Some d'"
  shows "\<exists>d. downsample m = Some d \<and>
           p_init (c_weight d') = Normal_init 0 (sqrt (2 / real (fan_term (c_weight d)))) \<and>
           shape (p_data (c_weight d')) = shape (p_data (c_weight d)) \<and>
           out_channels d' = out_channels d \<and> in_channels d' = in_channels d \<and>
           kernel_size d' = kernel_size d \<and> c_stride d' = c_stride d \<and> c_padding d' = c_padding d"
  using assms by (auto simp: init_block_unfold split: if_splits option.splits)

lemma init_block_modules_scalars:
  assumes "init_block_modules L name m g = Some (m', g')"
  shows "bias1a m' = init_linear (name @ ''.bias1a'') (bias1a m)"
    and "bias1b m' = init_linear (name @ ''.bias1b'') (bias1b m)"
    and "bias2a m' = init_linear (name @ ''.bias2a'') (bias2a m)"
    and "scale m' = init_linear (name @ ''.scale'') (scale m)"
    and "bias2b m' = init_linear (name @ ''.bias2b'') (bias2b m)"
    and "b_stride m' = b_stride m"
  using assms by (auto simp: init_block_unfold split: if_splits)

lemma init_block_modules_wf:
  assumes i: "init_block_modules L name m g = Some (m', g')" and wf: "block_wf cin cout s m"
  shows "block_wf cin cout s m'"
proof -
  have c1: "conv_is cin cout 3 s 1 (conv1 m')"
    using wf init_block_modules_conv1 [OF i] by (simp add: block_wf_def conv_is_def conv_wf_def)
  have c2: "conv_is cout cout 3 1 1 (conv2 m')"
    using wf init_block_modules_conv2 [OF i] by (simp add: block_wf_def conv_is_def conv_wf_def)
  have sc: "scalar_wf (bias1a m')" "scalar_wf (bias1b m')" "scalar_wf (bias2a m')"
      "scalar_wf (scale m')" "scalar_wf (bias2b m')"
    using wf by (simp_all add: init_block_modules_scalars [OF i] block_wf_def init_linear_scalar_wf)
  have ds: "case downsample m' of None \<Rightarrow> s = 1 \<and> cin = cout | Some d \<Rightarrow> conv_is cin cout 1 s 0 d"
  proof (cases "downsample m'")
    case None
    then have "downsample m = None" using init_block_modules_downsample_None [OF i] by simp
    with wf None show ?thesis by (simp add: block_wf_def)
  next
    case (Some d')
    from init_block_modules_downsample_Some [OF i Some] wf Some show ?thesis
      by (auto simp: block_wf_def conv_is_def conv_wf_def)
  qed
  from wf have "0 < s" by (simp add: block_wf_def)
  with c1 c2 sc ds show ?thesis by (simp add: block_wf_def)
qed

text \<open>What the loop does to a stage: block by block, under a name \<open>name.j\<close>.\<close>

lemma init_layer_modules_rel:
  assumes "init_layer_modules L name i ms g = Some (ms', g')"
  shows "list_all2 (\<lambda>m m'. \<exists>j g1 g2.
           init_block_modules L (name @ ''.'' @ str_nat j) m g1 = Some (m', g2)) ms ms'"
  using assms
proof (induction ms arbitrary: i g ms' g')
  case Nil
  then show ?case by simp
next
  case (Cons m ms)
  from Cons.prems obtain m1 g1 ms1 g2 where
    m1: "init_block_modules L (name @ ''.'' @ str_nat i) m g = Some (m1, g1)"
    and ms1: "init_layer_modules L name (Suc i) ms g1 = Some (ms1, g2)"
    and eq: "ms' = m1 # ms1"
    by (auto simp: Option.bind_eq_Some_conv)
  from Cons.IH [OF ms1] m1 eq show ?case by auto
qed


lemma init_block_modules_total:
  "0 < L \<Longrightarrow> \<exists>m' g'. init_block_modules L name m g = Some (m', g')"
  by (simp add: init_block_modules_def init_block_def Let_def split_def)

lemma init_layer_modules_total:
  "0 < L \<Longrightarrow> \<exists>ms' g'. init_layer_modules L name i ms g = Some (ms', g')"
proof (induction ms arbitrary: i g)
  case Nil
  show ?case by simp
next
  case (Cons m ms)
  obtain m' g1 where m': "init_block_modules L (name @ ''.'' @ str_nat i) m g = Some (m', g1)"
    using init_block_modules_total [OF Cons.prems] by blast
  obtain ms' g2 where "init_layer_modules L name (Suc i) ms g1 = Some (ms', g2)"
    using Cons.IH [OF Cons.prems] by blast
  with m' show ?case by simp
qed

lemma init_layer_modules_list_all:
  assumes i: "init_layer_modules L name i ms g = Some (ms', g')"
    and wf: "list_all (block_wf cin cout s) ms"
  shows "list_all (block_wf cin cout s) ms'"
proof -
  have r: "list_all2 (\<lambda>m m'. block_wf cin cout s m \<longrightarrow> block_wf cin cout s m') ms ms'"
    using init_layer_modules_rel [OF i]
    by (rule list_all2_mono) (auto intro: init_block_modules_wf)
  from r wf show ?thesis
    by (induction ms ms' rule: list_all2_induct) simp_all
qed

lemma init_layer_modules_wf:
  assumes i: "init_layer_modules L name i ms g = Some (ms', g')"
    and wf: "layer_wf cin cout s ms"
  shows "layer_wf cin cout s ms'"
proof -
  from wf obtain m rest where ms: "ms = m # rest" and m: "block_wf cin cout s m"
    and rest: "list_all (block_wf cout cout 1) rest"
    by (auto simp: layer_wf_def split: list.splits)
  from i ms obtain m1 g1 ms1 where
    m1: "init_block_modules L (name @ ''.'' @ str_nat i) m g = Some (m1, g1)"
    and ms1: "init_layer_modules L name (Suc i) rest g1 = Some (ms1, g')"
    and eq: "ms' = m1 # ms1"
    by (auto simp: Option.bind_eq_Some_conv)
  from init_block_modules_wf [OF m1 m] init_layer_modules_list_all [OF ms1 rest] eq
  show ?thesis by (simp add: layer_wf_def)
qed

lemma index_Some: "i < length xs \<Longrightarrow> index xs i = Some (xs ! i)"
  by (simp add: index_def)

lemma index_SomeD: "index xs i = Some x \<Longrightarrow> i < length xs \<and> x = xs ! i"
  by (auto simp: index_def split: if_splits)

lemma FixupResNet_SomeE:
  assumes "FixupResNet layers nc g = Some (net, g')"
  obtains n0 n1 n2 n3 ga gb gc gd ge gf gg g1 g2 g3 g4 h1 h2 h3 where
    "num_layers net = sum_list layers" and "0 \<le> nc" and "4 \<le> length layers"
    and "net_conv1 net = fst (Conv2d 3 64 3 1 1 g)"
    and "bias1 net = init_linear ''bias1'' (fst (Linear 1 1 False ga))"
    and "init_layer_modules (sum_list layers) ''layer1'' 0 (fst (fst (make_layer 64 64 n0 1 gb))) g1
           = Some (layer1 net, h1)"
    and "init_layer_modules (sum_list layers) ''layer2'' 0 (fst (fst (make_layer 64 128 n1 2 gc))) g2
           = Some (layer2 net, h2)"
    and "init_layer_modules (sum_list layers) ''layer3'' 0 (fst (fst (make_layer 128 256 n2 2 gd))) g3
           = Some (layer3 net, h3)"
    and "init_layer_modules (sum_list layers) ''layer4'' 0 (fst (fst (make_layer 256 512 n3 2 ge))) g4
           = Some (layer4 net, g')"
    and "bias2 net = init_linear ''bias2'' (fst (Linear 1 1 False gf))"
    and "fc net = init_linear ''fc'' (fst (Linear 512 (nat nc) True gg))"
proof -
  have sn: "\<And>i p n s g. snd (fst (make_layer i p n s g)) = p"
    by (simp add: make_layer_def split_def Let_def expansion_def)
  from assms show ?thesis
    apply (clarsimp simp: FixupResNet_def init_modules_def Let_def split_def sn expansion_def
        index_def Option.bind_eq_Some_conv prod_eq_iff split: if_splits simp del: One_nat_def)
    apply (rule that; (assumption | simp del: One_nat_def)?)
    done
qed


lemma FixupResNet_total:
  assumes "4 \<le> length layers" and "0 < sum_list layers" and "0 \<le> nc"
  shows "\<exists>net g'. FixupResNet layers nc g = Some (net, g')"
proof -
  let ?L = "sum_list layers"
  have ix: "index layers 0 = Some (layers ! 0)" "index layers 1 = Some (layers ! 1)"
      "index layers 2 = Some (layers ! 2)" "index layers 3 = Some (layers ! 3)"
    using assms(1) by (auto simp: index_def)
  have tot: "\<And>name ms g. \<exists>r. init_layer_modules ?L name 0 ms g = Some r"
    using init_layer_modules_total [OF assms(2)] by simp
  show ?thesis
    using assms(3)
    apply (simp add: FixupResNet_def init_modules_def ix Let_def split_def del: One_nat_def)
    apply (simp add: Option.bind_eq_Some_conv del: One_nat_def)
    apply (metis tot prod.collapse)
    done
qed

lemma FixupResNet_wf:
  assumes "FixupResNet layers nc g = Some (net, g')"
  shows "conv_is 3 64 3 1 1 (net_conv1 net)"
    and "scalar_wf (bias1 net)" and "scalar_wf (bias2 net)"
    and "layer_wf 64 64 1 (layer1 net)" and "layer_wf 64 128 2 (layer2 net)"
    and "layer_wf 128 256 2 (layer3 net)" and "layer_wf 256 512 2 (layer4 net)"
    and "shape (p_data (l_weight (fc net))) = [nat nc, 512]"
    and "data (p_data (l_weight (fc net))) = (\<lambda>_. 0)"
    and "\<exists>b. l_bias (fc net) = Some b \<and> shape (p_data b) = [nat nc] \<and> data (p_data b) = (\<lambda>_. 0)"
proof -
  from assms obtain n0 n1 n2 n3 ga gb gc gd ge gf gg g1 g2 g3 g4 h1 h2 h3 where
    c1: "net_conv1 net = fst (Conv2d 3 64 3 1 1 g)"
    and b1: "bias1 net = init_linear ''bias1'' (fst (Linear 1 1 False ga))"
    and l1: "init_layer_modules (sum_list layers) ''layer1'' 0 (fst (fst (make_layer 64 64 n0 1 gb))) g1
           = Some (layer1 net, h1)"
    and l2: "init_layer_modules (sum_list layers) ''layer2'' 0 (fst (fst (make_layer 64 128 n1 2 gc))) g2
           = Some (layer2 net, h2)"
    and l3: "init_layer_modules (sum_list layers) ''layer3'' 0 (fst (fst (make_layer 128 256 n2 2 gd))) g3
           = Some (layer3 net, h3)"
    and l4: "init_layer_modules (sum_list layers) ''layer4'' 0 (fst (fst (make_layer 256 512 n3 2 ge))) g4
           = Some (layer4 net, g')"
    and b2: "bias2 net = init_linear ''bias2'' (fst (Linear 1 1 False gf))"
    and f: "fc net = init_linear ''fc'' (fst (Linear 512 (nat nc) True gg))"
    by (rule FixupResNet_SomeE) blast
  show "conv_is 3 64 3 1 1 (net_conv1 net)" by (simp add: c1 Conv2d_conv_is del: One_nat_def)
  show "scalar_wf (bias1 net)" "scalar_wf (bias2 net)"
    by (simp_all add: b1 b2 init_linear_scalar_wf Linear_scalar_wf del: One_nat_def)
  show "layer_wf 64 64 1 (layer1 net)"
    by (rule init_layer_modules_wf [OF l1]) (simp add: make_layer_wf)
  show "layer_wf 64 128 2 (layer2 net)"
    by (rule init_layer_modules_wf [OF l2]) (simp add: make_layer_wf)
  show "layer_wf 128 256 2 (layer3 net)"
    by (rule init_layer_modules_wf [OF l3]) (simp add: make_layer_wf)
  show "layer_wf 256 512 2 (layer4 net)"
    by (rule init_layer_modules_wf [OF l4]) (simp add: make_layer_wf)
  have nsc: "\<not> contains ''scale'' ''fc''" by simp
  show "shape (p_data (l_weight (fc net))) = [nat nc, 512]"
    by (simp add: f Linear_def Parameter_def draw_def)
  show "data (p_data (l_weight (fc net))) = (\<lambda>_. 0)"
    by (simp add: f nsc)
  show "\<exists>b. l_bias (fc net) = Some b \<and> shape (p_data b) = [nat nc] \<and> data (p_data b) = (\<lambda>_. 0)"
    by (simp add: f Linear_def Parameter_def draw_def)
qed

lemma stage_dim_pos: "0 < (H - 1) div s + (1::nat)"
  by simp

lemma FixupResNet_forward_features:
  assumes c1: "conv_is 3 64 3 1 1 (net_conv1 net)"
    and b1: "scalar_wf (bias1 net)" and b2: "scalar_wf (bias2 net)"
    and l1: "layer_wf 64 64 1 (layer1 net)" and l2: "layer_wf 64 128 2 (layer2 net)"
    and l3: "layer_wf 128 256 2 (layer3 net)" and l4: "layer_wf 256 512 2 (layer4 net)"
    and x: "shape x = [B, 3, H, W]" and B: "0 < B" and H: "0 < H" and W: "0 < W"
  shows "\<exists>a. shape a = [B, 512] \<and> FixupResNet_forward net x = Linear_forward (fc net) a"
proof -
  obtain x1 where x1: "Conv2d_forward (net_conv1 net) x = Some x1" "shape x1 = [B, 64, H, W]"
    using Conv2d_forward_shape [OF c1 x] H W by auto
  obtain a1 where a1: "t_add x1 (p_data (l_weight (bias1 net))) = Some a1" "shape a1 = [B, 64, H, W]"
    using t_add_scalar [of "p_data (l_weight (bias1 net))" x1] b1 x1 by (auto simp: scalar_wf_def)
  have r: "shape (leaky_relu a1) = [B, 64, H, W]" using a1 by simp
  obtain y1 where y1: "Sequential_forward (layer1 net) (leaky_relu a1) = Some y1"
      "shape y1 = [B, 64, H, W]"
    using Sequential_forward_shape [OF l1 r H W] H W by auto
  let ?H2 = "(H - 1) div 2 + 1" and ?W2 = "(W - 1) div 2 + 1"
  obtain y2 where y2: "Sequential_forward (layer2 net) y1 = Some y2" "shape y2 = [B, 128, ?H2, ?W2]"
    using Sequential_forward_shape [OF l2 y1(2) H W] by auto
  let ?H3 = "(?H2 - 1) div 2 + 1" and ?W3 = "(?W2 - 1) div 2 + 1"
  obtain y3 where y3: "Sequential_forward (layer3 net) y2 = Some y3" "shape y3 = [B, 256, ?H3, ?W3]"
    using Sequential_forward_shape [OF l3 y2(2) stage_dim_pos stage_dim_pos] by auto
  let ?H4 = "(?H3 - 1) div 2 + 1" and ?W4 = "(?W3 - 1) div 2 + 1"
  obtain y4 where y4: "Sequential_forward (layer4 net) y3 = Some y4" "shape y4 = [B, 512, ?H4, ?W4]"
    using Sequential_forward_shape [OF l4 y3(2) stage_dim_pos stage_dim_pos] by auto
  obtain p where p: "avgpool_1x1 y4 = Some p" "shape p = [B, 512, 1, 1]"
    by (simp add: avgpool_1x1_def y4(2))
  obtain v where v: "view_rows p = Some v" "shape v = [B, 512]"
    using B by (simp add: view_rows_def p(2))
  obtain a where a: "t_add v (p_data (l_weight (bias2 net))) = Some a" "shape a = [B, 512]"
    using t_add_scalar [of "p_data (l_weight (bias2 net))" v] b2 v by (auto simp: scalar_wf_def)
  have "FixupResNet_forward net x = Linear_forward (fc net) a"
    by (simp add: FixupResNet_forward_def x1 a1 y1 y2 y3 y4 p v a)
  with a(2) show ?thesis by blast
qed

lemma tensor_eqI: "shape t = s \<Longrightarrow> data t = d \<Longrightarrow> t = \<lparr>shape = s, data = d\<rparr>"
  by (cases t) simp

lemma list_all2_set2: "list_all2 P xs ys \<Longrightarrow> y \<in> set ys \<Longrightarrow> \<exists>x \<in> set xs. P x y"
  by (induction xs ys rule: list_all2_induct) auto

lemma layer_blocks_origin:
  assumes i: "init_layer_modules L name k ms g = Some (ms', g')"
    and wf: "layer_wf cin cout s ms" and m': "m' \<in> set ms'"
  shows "\<exists>m ci st j g1 g2. block_wf ci cout st m \<and>
           init_block_modules L (name @ ''.'' @ str_nat j) m g1 = Some (m', g2)"
proof -
  from wf have all: "\<forall>m \<in> set ms. \<exists>ci st. block_wf ci cout st m"
    by (auto simp: layer_wf_def list_all_iff split: list.splits)
  from list_all2_set2 [OF init_layer_modules_rel [OF i] m'] obtain m where "m \<in> set ms"
    and "\<exists>j g1 g2. init_block_modules L (name @ ''.'' @ str_nat j) m g1 = Some (m', g2)"
    by blast
  with all show ?thesis by blast
qed

lemma stage_name_no_c:
  assumes "name \<in> {''layer1'', ''layer2'', ''layer3'', ''layer4''}"
  shows "CHR ''c'' \<notin> set (name @ ''.'' @ str_nat j)"
  using assms str_nat_no_c [of j] by auto

lemma net_blocks_origin:
  assumes c: "FixupResNet layers nc g = Some (net, g')" and m': "m' \<in> set (blocks net)"
  shows "\<exists>m ci co st nm g1 g2. block_wf ci co st m \<and> CHR ''c'' \<notin> set nm \<and>
           init_block_modules (sum_list layers) nm m g1 = Some (m', g2)"
proof -
  from c obtain n0 n1 n2 n3 gb gc gd ge g1 g2 g3 g4 h1 h2 h3 where
    l1: "init_layer_modules (sum_list layers) ''layer1'' 0 (fst (fst (make_layer 64 64 n0 1 gb))) g1
           = Some (layer1 net, h1)"
    and l2: "init_layer_modules (sum_list layers) ''layer2'' 0 (fst (fst (make_layer 64 128 n1 2 gc))) g2
           = Some (layer2 net, h2)"
    and l3: "init_layer_modules (sum_list layers) ''layer3'' 0 (fst (fst (make_layer 128 256 n2 2 gd))) g3
           = Some (layer3 net, h3)"
    and l4: "init_layer_modules (sum_list layers) ''layer4'' 0 (fst (fst (make_layer 256 512 n3 2 ge))) g4
           = Some (layer4 net, g')"
    by (rule FixupResNet_SomeE) blast
  from m' consider "m' \<in> set (layer1 net)" | "m' \<in> set (layer2 net)"
    | "m' \<in> set (layer3 net)" | "m' \<in> set (layer4 net)"
    by (auto simp: blocks_def)
  then show ?thesis
  proof cases
    case 1
    from layer_blocks_origin [OF l1 _ 1, of 64 64 1] stage_name_no_c [of "''layer1''"]
    show ?thesis by (fastforce simp: make_layer_wf)
  next
    case 2
    from layer_blocks_origin [OF l2 _ 2, of 64 128 2] stage_name_no_c [of "''layer2''"]
    show ?thesis by (fastforce simp: make_layer_wf)
  next
    case 3
    from layer_blocks_origin [OF l3 _ 3, of 128 256 2] stage_name_no_c [of "''layer3''"]
    show ?thesis by (fastforce simp: make_layer_wf)
  next
    case 4
    from layer_blocks_origin [OF l4 _ 4, of 256 512 2] stage_name_no_c [of "''layer4''"]
    show ?thesis by (fastforce simp: make_layer_wf)
  qed
qed

lemma fan_term_conv: "conv_wf c \<Longrightarrow> fan_term (c_weight c) = out_channels c * kernel_size c * kernel_size c"
  by (simp add: fan_term_def conv_wf_def)

section \<open>The claims about the Fixup network\<close>

text \<open>
  C1. Immediately after the construction of a \<^verbatim>\<open>FixupResNet\<close> from the layer counts
  \<open>layers\<close>, with \<open>L = sum layers\<close>: in every block, \<open>conv1\<close> was filled by
  \<^verbatim>\<open>normal_\<close> with mean 0 and standard deviation
  \<open>sqrt (2 / (out_channels * k * k)) * L ^ (-0.5)\<close>, taken from \<open>conv1\<close>'s own output
  channels and kernel size; the weight of \<open>conv2\<close> is the zero tensor; and a downsampling
  convolution, when the block has one, was filled by \<^verbatim>\<open>normal_\<close> with mean 0 and standard
  deviation \<open>sqrt (2 / (out_channels * k * k))\<close> of its own dimensions, without the factor
  in \<open>L\<close>.
\<close>

theorem FixupResNet_init_conv_weights:
  assumes c: "FixupResNet layers num_classes g = Some (net, g')"
  shows "\<forall>m \<in> set (blocks net).
           p_init (c_weight (conv1 m)) =
             Normal_init 0
               (sqrt (2 / real (out_channels (conv1 m) * kernel_size (conv1 m) * kernel_size (conv1 m)))
                * real_of_int (sum_list layers) powr (- 0.5)) \<and>
           p_data (c_weight (conv2 m)) =
             zeros [out_channels (conv2 m), in_channels (conv2 m), kernel_size (conv2 m),
                    kernel_size (conv2 m)] \<and>
           (case downsample m of
              None \<Rightarrow> True
            | Some d \<Rightarrow>
                p_init (c_weight d) =
                  Normal_init 0 (sqrt (2 / real (out_channels d * kernel_size d * kernel_size d))))"
proof
  fix m' assume "m' \<in> set (blocks net)"
  from net_blocks_origin [OF c this] obtain m ci co st nm g1 g2 where
    wf: "block_wf ci co st m"
    and i: "init_block_modules (sum_list layers) nm m g1 = Some (m', g2)"
    by blast
  from wf have w1: "conv_wf (conv1 m)" and w2: "conv_wf (conv2 m)"
    by (simp_all add: block_wf_def conv_is_def)
  have a: "p_init (c_weight (conv1 m')) =
             Normal_init 0
               (sqrt (2 / real (out_channels (conv1 m') * kernel_size (conv1 m') * kernel_size (conv1 m')))
                * real_of_int (sum_list layers) powr (- 0.5))"
    by (simp only: init_block_modules_conv1 [OF i] fan_term_conv [OF w1])
  have b: "p_data (c_weight (conv2 m')) =
             zeros [out_channels (conv2 m'), in_channels (conv2 m'), kernel_size (conv2 m'),
                    kernel_size (conv2 m')]"
    unfolding zeros_def
    using w2 by (intro tensor_eqI) (simp_all add: init_block_modules_conv2 [OF i] conv_wf_def)
  have d: "case downsample m' of
              None \<Rightarrow> True
            | Some d \<Rightarrow>
                p_init (c_weight d) =
                  Normal_init 0 (sqrt (2 / real (out_channels d * kernel_size d * kernel_size d)))"
  proof (cases "downsample m'")
    case None
    then show ?thesis by simp
  next
    case (Some d')
    from init_block_modules_downsample_Some [OF i Some] obtain d where
      d: "downsample m = Some d"
      "p_init (c_weight d') = Normal_init 0 (sqrt (2 / real (fan_term (c_weight d))))"
      "out_channels d' = out_channels d" "kernel_size d' = kernel_size d"
      by blast
    from wf d(1) have "conv_wf d" by (simp add: block_wf_def conv_is_def)
    from fan_term_conv [OF this] d Some show ?thesis by simp
  qed
  from a b d show "p_init (c_weight (conv1 m')) =
             Normal_init 0
               (sqrt (2 / real (out_channels (conv1 m') * kernel_size (conv1 m') * kernel_size (conv1 m')))
                * real_of_int (sum_list layers) powr (- 0.5)) \<and>
           p_data (c_weight (conv2 m')) =
             zeros [out_channels (conv2 m'), in_channels (conv2 m'), kernel_size (conv2 m'),
                    kernel_size (conv2 m')] \<and>
           (case downsample m' of
              None \<Rightarrow> True
            | Some d \<Rightarrow>
                p_init (c_weight d) =
                  Normal_init 0 (sqrt (2 / real (out_channels d * kernel_size d * kernel_size d))))"
    by blast
qed

theorem FixupResNet_init_conv_weights_witness:
  "\<exists>net g'. FixupResNet [1, 1, 1, 1] 10 (\<lambda>_ _. 0) = Some (net, g') \<and> layer1 net \<noteq> [] \<and>
     p_init (c_weight (conv1 (hd (layer1 net)))) = Normal_init 0 (sqrt (2 / 576) * 4 powr (- 0.5)) \<and>
     p_data (c_weight (conv2 (hd (layer1 net)))) = zeros [64, 64, 3, 3]"
proof -
  obtain net g' where c: "FixupResNet [1, 1, 1, 1] 10 (\<lambda>_ _. 0) = Some (net, g')"
    using FixupResNet_total [of "[1, 1, 1, 1]" 10 "\<lambda>_ _. 0"] by auto
  from FixupResNet_wf(4) [OF c] obtain m rest where l1: "layer1 net = m # rest"
    and wf: "block_wf 64 64 1 m"
    by (auto simp: layer_wf_def split: list.splits)
  have "m \<in> set (blocks net)" by (simp add: blocks_def l1)
  with FixupResNet_init_conv_weights [OF c] wf
  have "p_init (c_weight (conv1 m)) = Normal_init 0 (sqrt (2 / 576) * 4 powr (- 0.5)) \<and>
        p_data (c_weight (conv2 m)) = zeros [64, 64, 3, 3]"
    by (simp add: block_wf_def conv_is_def)
  with c l1 show ?thesis by simp
qed

lemma init_linear_scalar_data:
  assumes "scalar_wf m"
  shows "p_data (l_weight (init_linear name m)) =
           (if contains ''scale'' name then ones [1, 1] else zeros [1, 1])"
  using assms by (auto simp: ones_def zeros_def scalar_wf_def intro!: tensor_eqI)

text \<open>
  C7. Immediately after the construction of a \<^verbatim>\<open>FixupResNet\<close>, the \<open>scale\<close> of every
  block is exactly one, the four biases of every block (\<open>bias1a\<close>, \<open>bias1b\<close>, \<open>bias2a\<close>,
  \<open>bias2b\<close>) are exactly zero, and so are the network's own \<open>bias1\<close> (after the stem) and
  \<open>bias2\<close> (before the classifier). Each is the \<open>1 \<times> 1\<close> weight of a \<^verbatim>\<open>nn.Linear(1, 1)\<close>
  without a bias of its own.
\<close>

theorem FixupResNet_init_scales_and_biases:
  assumes c: "FixupResNet layers num_classes g = Some (net, g')"
  shows "(\<forall>m \<in> set (blocks net).
            p_data (l_weight (scale m)) = ones [1, 1] \<and>
            p_data (l_weight (bias1a m)) = zeros [1, 1] \<and>
            p_data (l_weight (bias1b m)) = zeros [1, 1] \<and>
            p_data (l_weight (bias2a m)) = zeros [1, 1] \<and>
            p_data (l_weight (bias2b m)) = zeros [1, 1]) \<and>
         p_data (l_weight (bias1 net)) = zeros [1, 1] \<and>
         p_data (l_weight (bias2 net)) = zeros [1, 1]"
proof (intro conjI ballI)
  fix m' assume "m' \<in> set (blocks net)"
  from net_blocks_origin [OF c this] obtain m ci co st nm g1 g2 where
    wf: "block_wf ci co st m" and nm: "CHR ''c'' \<notin> set nm"
    and i: "init_block_modules (sum_list layers) nm m g1 = Some (m', g2)"
    by blast
  from wf have sc: "scalar_wf (bias1a m)" "scalar_wf (bias1b m)" "scalar_wf (bias2a m)"
      "scalar_wf (scale m)" "scalar_wf (bias2b m)"
    by (simp_all add: block_wf_def)
  have no: "\<not> contains ''scale'' (nm @ ''.bias1a'')" "\<not> contains ''scale'' (nm @ ''.bias1b'')"
      "\<not> contains ''scale'' (nm @ ''.bias2a'')" "\<not> contains ''scale'' (nm @ ''.bias2b'')"
    using nm by (auto intro!: contains_needs_c)
  have yes: "contains ''scale'' (nm @ ''.scale'')"
    using contains_suffix [of "''scale''" "nm @ ''.''"] by simp
  show "p_data (l_weight (scale m')) = ones [1, 1]"
    by (simp only: init_block_modules_scalars [OF i] init_linear_scalar_data [OF sc(4)] yes if_True)
  show "p_data (l_weight (bias1a m')) = zeros [1, 1]"
    by (simp only: init_block_modules_scalars [OF i] init_linear_scalar_data [OF sc(1)] no if_False)
  show "p_data (l_weight (bias1b m')) = zeros [1, 1]"
    by (simp only: init_block_modules_scalars [OF i] init_linear_scalar_data [OF sc(2)] no if_False)
  show "p_data (l_weight (bias2a m')) = zeros [1, 1]"
    by (simp only: init_block_modules_scalars [OF i] init_linear_scalar_data [OF sc(3)] no if_False)
  show "p_data (l_weight (bias2b m')) = zeros [1, 1]"
    by (simp only: init_block_modules_scalars [OF i] init_linear_scalar_data [OF sc(5)] no if_False)
next
  from c obtain ga gf where
    b1: "bias1 net = init_linear ''bias1'' (fst (Linear 1 1 False ga))"
    and b2: "bias2 net = init_linear ''bias2'' (fst (Linear 1 1 False gf))"
    by (rule FixupResNet_SomeE) blast
  have no: "\<not> contains ''scale'' ''bias1''" "\<not> contains ''scale'' ''bias2''"
    by (auto intro!: contains_needs_c)
  show "p_data (l_weight (bias1 net)) = zeros [1, 1]"
    by (simp only: b1 init_linear_scalar_data [OF Linear_scalar_wf] no if_False)
  show "p_data (l_weight (bias2 net)) = zeros [1, 1]"
    by (simp only: b2 init_linear_scalar_data [OF Linear_scalar_wf] no if_False)
qed

theorem FixupResNet_init_scales_and_biases_witness:
  "\<exists>net g'. FixupResNet [2, 2, 2, 2] 10 (\<lambda>_ _. 1) = Some (net, g') \<and> layer1 net \<noteq> [] \<and>
     p_data (l_weight (scale (hd (layer1 net)))) = ones [1, 1] \<and>
     p_data (l_weight (bias1a (hd (layer1 net)))) = zeros [1, 1] \<and>
     p_data (l_weight (bias2b (hd (layer1 net)))) = zeros [1, 1] \<and>
     p_data (l_weight (bias1 net)) = zeros [1, 1]"
proof -
  obtain net g' where c: "FixupResNet [2, 2, 2, 2] 10 (\<lambda>_ _. 1) = Some (net, g')"
    using FixupResNet_total [of "[2, 2, 2, 2]" 10 "\<lambda>_ _. 1"] by auto
  from FixupResNet_wf(4) [OF c] obtain m rest where l1: "layer1 net = m # rest"
    by (auto simp: layer_wf_def split: list.splits)
  have "m \<in> set (blocks net)" by (simp add: blocks_def l1)
  with FixupResNet_init_scales_and_biases [OF c] c l1 show ?thesis by simp
qed




text \<open>
  C9. The forward pass of a \<^verbatim>\<open>FixupResNet18\<close> on an input of shape \<open>[B, 3, H, W]\<close> returns
  a tensor of shape \<open>[B, num_classes]\<close>, for every batch of at least one image and every
  height and width of at least one pixel: the stem and the first stage keep \<open>H\<close> and \<open>W\<close>,
  each later stage maps a size \<open>n\<close> to \<open>(n - 1) div 2 + 1\<close>, which is positive again, and
  the pooling reduces whatever is left to \<open>1 \<times> 1\<close>. With \<open>B = 0\<close> the call fails in
  \<^verbatim>\<open>x.view(x.size(0), -1)\<close>.
\<close>

theorem FixupResNet18_output_shape:
  assumes c: "FixupResNet18 num_classes g = Some (net, g')"
    and x: "shape x = [B, 3, H, W]" and B: "0 < B" and H: "0 < H" and W: "0 < W"
  shows "\<exists>y. FixupResNet_forward net x = Some y \<and>
             shape y = [B, nat (case num_classes of None \<Rightarrow> 10 | Some n \<Rightarrow> n)]"
proof -
  let ?nc = "case num_classes of None \<Rightarrow> 10 | Some n \<Rightarrow> n"
  from c have c': "FixupResNet [2, 2, 2, 2] ?nc g = Some (net, g')"
    by (simp add: FixupResNet18_def)
  note wf = FixupResNet_wf [OF c']
  obtain a where a: "shape a = [B, 512]" "FixupResNet_forward net x = Linear_forward (fc net) a"
    using FixupResNet_forward_features [OF wf(1-7) x B H W] by blast
  have "\<exists>y. Linear_forward (fc net) a = Some y \<and> shape y = [B, nat ?nc]"
    using wf(8) a(1) by (simp add: Linear_forward_def linear_op_def)
  with a(2) show ?thesis by simp
qed

theorem FixupResNet18_output_shape_witness:
  "\<exists>net g' y. FixupResNet18 None (\<lambda>_ _. 1) = Some (net, g') \<and>
     FixupResNet_forward net (ones [1, 3, 32, 32]) = Some y \<and> shape y = [1, 10]"
proof -
  obtain net g' where c: "FixupResNet18 None (\<lambda>_ _. 1) = Some (net, g')"
    using FixupResNet_total [of "[2, 2, 2, 2]" 10 "\<lambda>_ _. 1"] by (auto simp: FixupResNet18_def)
  have "shape (ones [1, 3, 32, 32]) = [1, 3, 32, 32]" by (simp add: ones_def)
  from FixupResNet18_output_shape [OF c this] c show ?thesis by simp
qed

lemma t_iadd_SomeD: "t_iadd a b = Some y \<Longrightarrow> t_add a b = Some y"
  by (simp add: t_iadd_def split: if_splits)

lemma FixupBasicBlock_forward_spec:
  assumes "FixupBasicBlock_forward m x = Some y"
  shows "spec_block_forward m x = Some y"
  using assms
  by (auto simp: FixupBasicBlock_forward_def spec_block_forward_def Option.bind_eq_Some_conv
      Let_def dest!: t_iadd_SomeD split: option.splits)

text \<open>
  C2. On an input \<open>x\<close> of shape \<open>[B, C_in, H, W]\<close>, the forward pass of a block with
  \<open>C_in\<close> input channels returns, and what it returns is the value of the six steps of
  the specification in their order: \<open>t = conv1 (x + bias1a)\<close>,
  \<open>t = activation (t + bias1b)\<close> with the leaky rectifier, \<open>t = conv2 (t + bias2a)\<close>,
  \<open>t = t * scale + bias2b\<close>, \<open>identity = downsample (x + bias1a)\<close> when the block has
  a downsampling convolution and \<open>identity = x\<close> otherwise, and
  \<open>activation (t + identity)\<close>. The forward pass is a function of the block's parameters
  and of \<open>x\<close>: it reads nothing else and returns only its output.
\<close>

theorem FixupBasicBlock_forward_steps:
  assumes "block_wf cin cout s m" and "shape x = [B, cin, H, W]" and "0 < H" and "0 < W"
  shows "\<exists>y. FixupBasicBlock_forward m x = Some y \<and> spec_block_forward m x = Some y \<and>
             shape y = [B, cout, (H - 1) div s + 1, (W - 1) div s + 1]"
proof -
  from FixupBasicBlock_forward_shape [OF assms] obtain y where
    y: "FixupBasicBlock_forward m x = Some y" "shape y = [B, cout, (H - 1) div s + 1, (W - 1) div s + 1]"
    by blast
  from FixupBasicBlock_forward_spec [OF y(1)] y show ?thesis by simp
qed

theorem FixupBasicBlock_forward_steps_witness:
  "\<exists>y. FixupBasicBlock_forward (fst (FixupBasicBlock 3 3 1 None (\<lambda>_ _. 1))) (ones [2, 3, 4, 4]) = Some y \<and>
       spec_block_forward (fst (FixupBasicBlock 3 3 1 None (\<lambda>_ _. 1))) (ones [2, 3, 4, 4]) = Some y \<and>
       shape y = [2, 3, 4, 4]"
proof -
  have wf: "block_wf 3 3 1 (fst (FixupBasicBlock 3 3 1 None (\<lambda>_ _. 1)))"
    by (rule FixupBasicBlock_wf) simp_all
  have x: "shape (ones [2, 3, 4, 4]) = [2, 3, 4, 4]" by (simp add: ones_def)
  from FixupBasicBlock_forward_steps [OF wf x] show ?thesis by simp
qed

section \<open>The claims about the Mogrifier cell\<close>

lemma mogrify_loop_snoc:
  "mogrify_loop ts (js @ [i]) x h = Option.bind (mogrify_loop ts js x h) (spec_round ts i)"
proof (induction js arbitrary: x h)
  case Nil
  show ?case
    by (cases "index ts i") (auto simp: spec_round_def split: option.splits bind_splits)
next
  case (Cons j js)
  show ?case
    by (cases "index ts j") (auto simp: Cons.IH split: bind_splits)
qed

lemma mogrify_loop_upt: "mogrify_loop ts [0..<n] x h = spec_rounds ts n (x, h)"
  by (induction n) (simp_all add: mogrify_loop_snoc)

lemmas ctor_defs = MogrifierLSTMCell_def LSTMCell_def Linear_def Parameter_def draw_def
  split_def Let_def

lemma upt_2: "[0..<2] = [0, 1]" by (simp add: upt_rec)

text \<open>
  C4. For every input \<open>x\<close>, hidden state \<open>h\<close> and number of steps \<open>n\<close>, the gating loop
  runs the rounds \<open>0, ..., n - 1\<close> in this order and no other: round \<open>i\<close> replaces \<open>h\<close> by
  \<open>2 * sigmoid (transform i x) * h\<close> when \<open>(i + 1) mod 2 = 0\<close> and replaces \<open>x\<close> by
  \<open>2 * sigmoid (transform i h) * x\<close> otherwise. In particular the first round gates \<open>x\<close>
  by \<open>h\<close>. The cell state \<open>c\<close> takes no part in the rounds and reaches the LSTM step as
  it was given.
\<close>

theorem mogrify_rounds:
  "mogrify m x h = spec_rounds (mogrifier_list m) (nat (mogrify_steps m)) (x, h) \<and>
   spec_rounds (mogrifier_list m) 1 (x, h) =
     Option.bind (index (mogrifier_list m) 0) (\<lambda>t. map_option (\<lambda>x'. (x', h)) (gate_by t h x)) \<and>
   MogrifierLSTMCell_forward m x (h, c) =
     Option.bind (mogrify m x h) (\<lambda>(x', h'). LSTMCell_forward (m_lstm m) x' (h', c))"
proof (intro conjI)
  show "mogrify m x h = spec_rounds (mogrifier_list m) (nat (mogrify_steps m)) (x, h)"
    by (simp add: mogrify_def mogrify_loop_upt)
  show "spec_rounds (mogrifier_list m) 1 (x, h) =
     Option.bind (index (mogrifier_list m) 0) (\<lambda>t. map_option (\<lambda>x'. (x', h)) (gate_by t h x))"
    by (cases "index (mogrifier_list m) 0") (simp_all add: spec_round_def)
  show "MogrifierLSTMCell_forward m x (h, c) =
     Option.bind (mogrify m x h) (\<lambda>(x', h'). LSTMCell_forward (m_lstm m) x' (h', c))"
    by (cases "mogrify m x h") (auto simp: MogrifierLSTMCell_forward_def split: bind_splits)
qed

theorem mogrify_rounds_witness:
  "mogrify (fst (MogrifierLSTMCell 2 3 2 90 (\<lambda>_ _. 1))) (ones [1, 2]) (ones [1, 3]) =
     spec_rounds (mogrifier_list (fst (MogrifierLSTMCell 2 3 2 90 (\<lambda>_ _. 1)))) 2
       (ones [1, 2], ones [1, 3]) \<and>
   mogrify (fst (MogrifierLSTMCell 2 3 2 90 (\<lambda>_ _. 1))) (ones [1, 2]) (ones [1, 3]) \<noteq> None"
proof -
  let ?m = "fst (MogrifierLSTMCell 2 3 2 90 (\<lambda>_ _. 1))"
  have n: "nat (mogrify_steps ?m) = 2" by (simp add: ctor_defs)
  have 1: "mogrify ?m (ones [1, 2]) (ones [1, 3]) =
     spec_rounds (mogrifier_list ?m) 2 (ones [1, 2], ones [1, 3])"
    using mogrify_rounds [of ?m "ones [1, 2]" "ones [1, 3]"] n by simp
  have 2: "mogrify ?m (ones [1, 2]) (ones [1, 3]) \<noteq> None"
    by (simp add: mogrify_def ctor_defs upt_rec index_def gate_by_def Linear_forward_def
        linear_op_def t_mul_def pointwise_def broadcast_shapes_def ones_def)
  from 1 2 show ?thesis by simp
qed

text \<open>
  C8. A \<^verbatim>\<open>MogrifierLSTMCell\<close> built with \<open>mogrify_steps = 0\<close> returns, for every input and
  every state \<open>(h, c)\<close>, what the plain LSTM cell inside it returns on the same input and
  state: no gate is applied.
\<close>

theorem mogrify_steps_zero:
  "m_lstm (fst (MogrifierLSTMCell input hidden 0 k g)) = fst (LSTMCell input hidden g) \<and>
   MogrifierLSTMCell_forward (fst (MogrifierLSTMCell input hidden 0 k g)) x (h, c) =
     LSTMCell_forward (fst (LSTMCell input hidden g)) x (h, c)"
proof -
  let ?m = "fst (MogrifierLSTMCell input hidden 0 k g)"
  have l: "m_lstm ?m = fst (LSTMCell input hidden g)"
    by (simp add: MogrifierLSTMCell_def split_def Let_def)
  have s: "mogrify_steps ?m = 0"
    by (simp add: MogrifierLSTMCell_def split_def Let_def)
  have "MogrifierLSTMCell_forward ?m x (h, c) = LSTMCell_forward (m_lstm ?m) x (h, c)"
    by (cases "LSTMCell_forward (m_lstm ?m) x (h, c)")
      (simp_all add: MogrifierLSTMCell_forward_def mogrify_def s)
  with l show ?thesis by simp
qed

theorem mogrify_steps_zero_witness:
  "MogrifierLSTMCell_forward (fst (MogrifierLSTMCell 2 3 0 90 (\<lambda>_ _. 1))) (ones [1, 2])
     (zeros [1, 3], zeros [1, 3]) =
   LSTMCell_forward (fst (LSTMCell 2 3 (\<lambda>_ _. 1))) (ones [1, 2]) (zeros [1, 3], zeros [1, 3]) \<and>
   LSTMCell_forward (fst (LSTMCell 2 3 (\<lambda>_ _. 1))) (ones [1, 2]) (zeros [1, 3], zeros [1, 3]) \<noteq> None"
proof -
  have "LSTMCell_forward (fst (LSTMCell 2 3 (\<lambda>_ _. 1))) (ones [1, 2]) (zeros [1, 3], zeros [1, 3]) \<noteq> None"
    by (simp add: LSTMCell_forward_def lstm_step_def ctor_defs ones_def zeros_def)
  with mogrify_steps_zero [of 2 3 90 "\<lambda>_ _. 1" "ones [1, 2]" "zeros [1, 3]" "zeros [1, 3]"]
  show ?thesis by simp
qed

lemma Linear_shape [simp]:
  "shape (p_data (l_weight (fst (Linear n m b g)))) = [m, n]"
  "l_bias (fst (Linear n m False g)) = None"
  "\<exists>y. l_bias (fst (Linear n m True g)) = Some y"
  by (cases b; simp add: Linear_def Parameter_def draw_def split_def Let_def)+

lemma full_rank_loop_nth:
  "length (fst (full_rank_loop input hidden js g)) = length js \<and>
   (\<forall>n < length js.
      is_full (if js ! n mod 2 = 0 then hidden else input) (if js ! n mod 2 = 0 then input else hidden)
        (fst (full_rank_loop input hidden js g) ! n))"
proof (induction js arbitrary: g)
  case Nil
  show ?case by simp
next
  case (Cons j js)
  let ?g = "snd (if j mod 2 = 0 then Linear hidden input True g else Linear input hidden True g)"
  let ?l = "fst (if j mod 2 = 0 then Linear hidden input True g else Linear input hidden True g)"
  have eq: "fst (full_rank_loop input hidden (j # js) g) =
              Full ?l # fst (full_rank_loop input hidden js ?g)"
    by (simp add: split_def Let_def)
  have hd: "is_full (if j mod 2 = 0 then hidden else input) (if j mod 2 = 0 then input else hidden)
              (Full ?l)"
    by simp
  show ?case
    unfolding eq using Cons.IH [of ?g] hd by (auto simp: nth_Cons split: nat.splits)
qed

lemma low_rank_loop_nth:
  "length (fst (low_rank_loop input hidden k js g)) = length js \<and>
   (\<forall>n < length js.
      is_factored (if js ! n mod 2 = 0 then hidden else input) k
        (if js ! n mod 2 = 0 then input else hidden)
        (fst (low_rank_loop input hidden k js g) ! n))"
proof (induction js arbitrary: g)
  case Nil
  show ?case by simp
next
  case (Cons j js)
  let ?pa = "if j mod 2 = 0 then Linear hidden k False g else Linear input k False g"
  let ?pb = "if j mod 2 = 0 then Linear k input True (snd ?pa) else Linear k hidden True (snd ?pa)"
  have eq: "fst (low_rank_loop input hidden k (j # js) g) =
              Low_rank (fst ?pa) (fst ?pb) # fst (low_rank_loop input hidden k js (snd ?pb))"
    by (simp add: split_def Let_def)
  have hd: "is_factored (if j mod 2 = 0 then hidden else input) k
              (if j mod 2 = 0 then input else hidden) (Low_rank (fst ?pa) (fst ?pb))"
    by simp
  show ?case
    unfolding eq using Cons.IH [of "snd ?pb"] hd by (auto simp: nth_Cons split: nat.splits)
qed

text \<open>
  C3, as the code has it. A \<^verbatim>\<open>MogrifierLSTMCell\<close> built with \<open>mogrify_steps = n\<close> holds
  \<open>max 1 n\<close> transforms. Transform \<open>i\<close> maps the hidden size to the input size when \<open>i\<close>
  is even and the input size to the hidden size when \<open>i\<close> is odd. When the input size or
  the hidden size is below \<open>k\<close>, each transform is one linear map with a bias. When both
  are at least \<open>k\<close>, each is two linear maps with inner dimension \<open>k\<close>, the first without
  a bias and the second with one.
\<close>

theorem MogrifierLSTMCell_transforms:
  assumes i: "i < length (mogrifier_list (fst (MogrifierLSTMCell input hidden steps k g)))"
  shows "length (mogrifier_list (fst (MogrifierLSTMCell input hidden steps k g))) = max 1 (nat steps) \<and>
    (if input < k \<or> hidden < k
     then is_full (if i mod 2 = 0 then hidden else input) (if i mod 2 = 0 then input else hidden)
            (mogrifier_list (fst (MogrifierLSTMCell input hidden steps k g)) ! i)
     else is_factored (if i mod 2 = 0 then hidden else input) k
            (if i mod 2 = 0 then input else hidden)
            (mogrifier_list (fst (MogrifierLSTMCell input hidden steps k g)) ! i))"
proof (cases "input < k \<or> hidden < k")
  case True
  let ?g = "snd (Linear hidden input True (snd (LSTMCell input hidden g)))"
  let ?q = "fst (Linear hidden input True (snd (LSTMCell input hidden g)))"
  let ?ts = "fst (full_rank_loop input hidden [1..<nat steps] ?g)"
  have ml: "mogrifier_list (fst (MogrifierLSTMCell input hidden steps k g)) = Full ?q # ?ts"
    using True by (simp add: MogrifierLSTMCell_def split_def Let_def)
  note loop = full_rank_loop_nth [of input hidden "[1..<nat steps]" ?g]
  have len: "length (Full ?q # ?ts) = max 1 (nat steps)"
    using loop by simp
  have "is_full (if i mod 2 = 0 then hidden else input) (if i mod 2 = 0 then input else hidden)
          ((Full ?q # ?ts) ! i)"
  proof (cases i)
    case 0
    then show ?thesis by simp
  next
    case (Suc n)
    with i ml loop have n: "n < length [1..<nat steps]" by simp
    then have "[1..<nat steps] ! n = Suc n" by simp
    with loop n Suc show ?thesis by (auto simp: mod_Suc)
  qed
  with True ml len show ?thesis by simp
next
  case False
  let ?g1 = "snd (Linear hidden k False (snd (LSTMCell input hidden g)))"
  let ?a = "fst (Linear hidden k False (snd (LSTMCell input hidden g)))"
  let ?g = "snd (Linear k input True ?g1)"
  let ?b = "fst (Linear k input True ?g1)"
  let ?ts = "fst (low_rank_loop input hidden k [1..<nat steps] ?g)"
  have ml: "mogrifier_list (fst (MogrifierLSTMCell input hidden steps k g)) = Low_rank ?a ?b # ?ts"
    using False by (simp add: MogrifierLSTMCell_def split_def Let_def)
  note loop = low_rank_loop_nth [of input hidden k "[1..<nat steps]" ?g]
  have len: "length (Low_rank ?a ?b # ?ts) = max 1 (nat steps)"
    using loop by simp
  have "is_factored (if i mod 2 = 0 then hidden else input) k (if i mod 2 = 0 then input else hidden)
          ((Low_rank ?a ?b # ?ts) ! i)"
  proof (cases i)
    case 0
    then show ?thesis by simp
  next
    case (Suc n)
    with i ml loop have n: "n < length [1..<nat steps]" by simp
    then have "[1..<nat steps] ! n = Suc n" by simp
    with loop n Suc show ?thesis by (auto simp: mod_Suc)
  qed
  with False ml len show ?thesis by simp
qed

theorem MogrifierLSTMCell_transforms_witness:
  "length (mogrifier_list (fst (MogrifierLSTMCell 100 120 3 90 (\<lambda>_ _. 1)))) = 3 \<and>
   is_factored 100 90 120 (mogrifier_list (fst (MogrifierLSTMCell 100 120 3 90 (\<lambda>_ _. 1))) ! 1) \<and>
   is_factored 120 90 100 (mogrifier_list (fst (MogrifierLSTMCell 100 120 3 90 (\<lambda>_ _. 1))) ! 2)"
proof -
  let ?ts = "mogrifier_list (fst (MogrifierLSTMCell 100 120 3 90 (\<lambda>_ _. 1)))"
  have len: "length ?ts = 3"
    by (simp add: MogrifierLSTMCell_def split_def Let_def upt_rec)
  have "(1::nat) < length ?ts" and "(2::nat) < length ?ts" by (simp_all only: len)
  from MogrifierLSTMCell_transforms [OF this(1)] MogrifierLSTMCell_transforms [OF this(2)]
  show ?thesis by simp
qed

text \<open>
  The claim as it was stated has the condition the other way round: it expects the
  factored form when both sizes are below \<open>k\<close>. With both sizes 10 and \<open>k = 90\<close> the
  constructor builds one full linear map.
\<close>

theorem MogrifierLSTMCell_small_sizes_counterexample:
  "is_full 10 10 (mogrifier_list (fst (MogrifierLSTMCell 10 10 1 90 (\<lambda>_ _. 1))) ! 0) \<and>
   \<not> is_factored 10 90 10 (mogrifier_list (fst (MogrifierLSTMCell 10 10 1 90 (\<lambda>_ _. 1))) ! 0)"
  by (simp add: MogrifierLSTMCell_def split_def Let_def)

section \<open>The claims about the language models\<close>

lemma select_dim0_zeros: "select_dim0 (zeros (n # s)) l = zeros s"
  by (simp add: select_dim0_def zeros_def)

text \<open>
  C6. When no initial state is supplied, both forward passes start every recurrent layer
  from zero hidden and cell states of shape \<open>[batch, hidden_size]\<close>:
  \<^verbatim>\<open>LanguageModel.forward\<close> runs its two cells from such zeros (whatever
  \<open>initial_state\<close> is, which it never reads), and \<^verbatim>\<open>CudnnLanguageModel.forward\<close> runs the
  fused unit from two tensors of zeros \<open>[num_layers, batch, hidden_size]\<close>, whose layer \<open>l\<close>
  is the zero tensor \<open>[batch, hidden_size]\<close>. The recurrent unit never runs from a state
  that was not set: where the default is not applied, in
  \<^verbatim>\<open>CudnnLanguageModel.forward\<close> with an \<open>initial_state\<close> that is not \<open>None\<close>, the variable
  \<open>hidden\<close> is unbound and the call raises at once.
\<close>

theorem forward_initial_state:
  "LanguageModel_forward m inputs initial_state g =
     Option.bind (index (shape inputs) 0)
       (\<lambda>B. LanguageModel_run m inputs
               (zeros [B, cell_hidden_size (lstm1 m)], zeros [B, cell_hidden_size (lstm1 m)])
               (zeros [B, cell_hidden_size (lstm2 m)], zeros [B, cell_hidden_size (lstm2 m)]) g) \<and>
   CudnnLanguageModel_forward cm inputs None g =
     Option.bind (Embedding_forward (c_emb_vectors cm) inputs)
       (\<lambda>embs. Option.bind (index (shape inputs) 0)
          (\<lambda>B. CudnnLanguageModel_run cm embs
                  (zeros [c_num_layers cm, B, lstm_hidden_size (c_lstm cm)],
                   zeros [c_num_layers cm, B, lstm_hidden_size (c_lstm cm)]) g)) \<and>
   select_dim0 (zeros [c_num_layers cm, B, lstm_hidden_size (c_lstm cm)]) l =
     zeros [B, lstm_hidden_size (c_lstm cm)] \<and>
   CudnnLanguageModel_forward cm inputs (Some s) g = None"
  by (simp add: LanguageModel_forward_def CudnnLanguageModel_forward_def Let_def select_dim0_zeros)

theorem forward_initial_state_witness:
  "LanguageModel_forward witness_model example_inputs (None :: unit option) zero_rng =
     LanguageModel_run witness_model example_inputs
       (zeros [1, cell_hidden_size (lstm1 witness_model)],
        zeros [1, cell_hidden_size (lstm1 witness_model)])
       (zeros [1, cell_hidden_size (lstm2 witness_model)],
        zeros [1, cell_hidden_size (lstm2 witness_model)])
       zero_rng \<and>
   CudnnLanguageModel_forward (converted witness_model) example_inputs (Some ()) zero_rng = None"
proof -
  have i: "index (shape example_inputs) 0 = Some 1"
    by (simp add: example_inputs_def index_def)
  note t = forward_initial_state [of witness_model example_inputs "None :: unit option" zero_rng
      "converted witness_model" 1 0 "()"]
  have "LanguageModel_forward witness_model example_inputs (None :: unit option) zero_rng =
     Option.bind (index (shape example_inputs) 0)
       (\<lambda>B. LanguageModel_run witness_model example_inputs
               (zeros [B, cell_hidden_size (lstm1 witness_model)],
                zeros [B, cell_hidden_size (lstm1 witness_model)])
               (zeros [B, cell_hidden_size (lstm2 witness_model)],
                zeros [B, cell_hidden_size (lstm2 witness_model)])
               zero_rng)"
    using t by (rule conjunct1)
  also have "\<dots> = LanguageModel_run witness_model example_inputs
       (zeros [1, cell_hidden_size (lstm1 witness_model)],
        zeros [1, cell_hidden_size (lstm1 witness_model)])
       (zeros [1, cell_hidden_size (lstm2 witness_model)],
        zeros [1, cell_hidden_size (lstm2 witness_model)])
       zero_rng"
    by (simp add: i)
  finally have a: "LanguageModel_forward witness_model example_inputs (None :: unit option) zero_rng =
     LanguageModel_run witness_model example_inputs
       (zeros [1, cell_hidden_size (lstm1 witness_model)],
        zeros [1, cell_hidden_size (lstm1 witness_model)])
       (zeros [1, cell_hidden_size (lstm2 witness_model)],
        zeros [1, cell_hidden_size (lstm2 witness_model)])
       zero_rng" .
  have b: "CudnnLanguageModel_forward (converted witness_model) example_inputs (Some ()) zero_rng = None"
    using t by (elim conjE)
  from a b show ?thesis by (rule conjI)
qed

subsection \<open>The LSTM step and the two ways of running two layers\<close>


lemma lstm_step_shape:
  assumes "lstm_step w_ih w_hh b_ih b_hh x hc = Some (h', c')"
  shows "shape h' = shape (fst hc) \<and> shape c' = shape (fst hc)"
  using assms
  by (cases hc) (auto simp: lstm_step_def Let_def split: list.splits if_splits)





subsection \<open>Flattening batch and time\<close>







subsection \<open>The converter\<close>

lemma str_nat_digits [simp]: "str_nat 0 = ''0''" "str_nat (Suc 0) = ''1''"
  by (subst str_nat.simps, simp add: digit_char_def)+











subsection \<open>The two small models\<close>



















end
